theory Spec2Isabelle
  imports Complex_Main "HOL-Library.Sublist" "HOL-Library.Multiset"
begin

section \<open>Python strings\<close>

text \<open>
  A Python \<open>str\<close> is modelled as a HOL \<open>string\<close> whose characters are the code points
  below 256. On these, \<open>str.lower()\<close> maps \<open>A..Z\<close> and the Latin-1 capitals
  (192..222 except 215) to the code point 32 above, and \<open>str.isspace()\<close> holds for
  9..13, 28..32, 133 and 160.
\<close>

definition lower_char :: "char \<Rightarrow> char" where
  "lower_char c =
     (let n = (of_char c :: nat)
      in if (65 \<le> n \<and> n \<le> 90) \<or> (192 \<le> n \<and> n \<le> 222 \<and> n \<noteq> 215)
         then char_of (n + 32) else c)"

definition lower :: "string \<Rightarrow> string" where
  "lower s = map lower_char s"

definition isspace :: "char \<Rightarrow> bool" where
  "isspace c =
     (let n = (of_char c :: nat)
      in (9 \<le> n \<and> n \<le> 13) \<or> (28 \<le> n \<and> n \<le> 32) \<or> n = 133 \<or> n = 160)"

text \<open>\<open>s.strip()\<close>: leading and trailing white space removed.\<close>

definition strip :: "string \<Rightarrow> string" where
  "strip s = rev (dropWhile isspace (rev (dropWhile isspace s)))"

text \<open>\<open>s.rstrip("/")\<close>: trailing slashes removed.\<close>

definition rstrip_slash :: "string \<Rightarrow> string" where
  "rstrip_slash s = rev (dropWhile (\<lambda>c. c = CHR ''/'') (rev s))"

text \<open>\<open>sub in s\<close> for two strings: \<open>sub\<close> occurs in \<open>s\<close> as a contiguous run.\<close>

fun contains :: "string \<Rightarrow> string \<Rightarrow> bool" where
  "contains sub [] = (sub = [])"
| "contains sub (c # cs) = (prefix sub (c # cs) \<or> contains sub cs)"

text \<open>
  \<open>s.replace(old, new)\<close>: the occurrences of \<open>old\<close> are replaced from left to right,
  without overlap. With an empty \<open>old\<close>, Python puts \<open>new\<close> before every character
  and at the end.
\<close>

function replace :: "string \<Rightarrow> string \<Rightarrow> string \<Rightarrow> string" where
  "replace old new s =
     (if old = [] then new @ concat (map (\<lambda>c. c # new) s)
      else if s = [] then []
      else if prefix old s then new @ replace old new (drop (length old) s)
      else hd s # replace old new (tl s))"
  by pat_completeness auto
termination
  by (relation "measure (\<lambda>(old, new, s). length s)") (auto simp: neq_Nil_conv)

declare replace.simps [simp del]

text \<open>\<open>sep.join(xs)\<close>.\<close>

fun join :: "string \<Rightarrow> string list \<Rightarrow> string" where
  "join sep [] = []"
| "join sep [x] = x"
| "join sep (x # y # ys) = x @ sep @ join sep (y # ys)"

text \<open>\<open>str(n)\<close> for an integer: decimal digits, with a minus sign when negative.\<close>

definition digit_char :: "nat \<Rightarrow> char" where
  "digit_char d = char_of (48 + d)"

function str_nat :: "nat \<Rightarrow> string" where
  "str_nat n = (if n < 10 then [digit_char n] else str_nat (n div 10) @ [digit_char (n mod 10)])"
  by pat_completeness auto
termination
  by (relation "measure id") auto

declare str_nat.simps [simp del]

definition str_int :: "int \<Rightarrow> string" where
  "str_int i = (if i < 0 then CHR ''-'' # str_nat (nat (- i)) else str_nat (nat i))"

section \<open>Candidates and the heuristic scorer (agents/repo_scout.py)\<close>

text \<open>\<open>class RepoCandidate(BaseModel)\<close>.\<close>

record RepoCandidate =
  name :: string
  url :: string
  description :: string
  stars :: int
  match_score :: int
  analysis_reason :: string

text \<open>
  \<open>_analyze_match\<close>, lines 229 to 246: the baseline and the two affinity rules, evaluated
  in the order of the source. The second rule may replace the score outright.
\<close>

definition affinity_rules :: "RepoCandidate \<Rightarrow> string \<Rightarrow> int \<times> string" where
  "affinity_rules candidate requirement =
     (let score = (50::int);
          reason = ''Basic match.'';
          req_lower = lower requirement;
          name_lower = lower (name candidate);
          desc_lower = lower (description candidate);
          (score, reason) =
            (if contains ''jeecg'' req_lower \<and> contains ''jeecg'' name_lower
             then (score + 30, ''High affinity: Jeecg module pattern detected.'')
             else (score, reason))
      in if contains ''stripe'' req_lower \<and> contains ''stripe'' name_lower
         then (if contains ''sdk'' desc_lower
               then (40, ''Low affinity: SDK library (requires wrapping).'')
               else (score + 40, ''Good match: Payment implementation found.''))
         else (score, reason))"

definition standalone_warning :: string where
  "standalone_warning = '' Warning: Standalone system, migration might be complex.''"

text \<open>
  Lines 248 to 251: the penalty for a standalone application. The application keyword
  of the source is \<open>system\<close>, the module keyword is \<open>module\<close>; both are looked for in the
  lower-cased description.
\<close>

definition standalone_penalty :: "RepoCandidate \<Rightarrow> int \<times> string \<Rightarrow> int \<times> string" where
  "standalone_penalty candidate sr =
     (let desc_lower = lower (description candidate)
      in if contains ''system'' desc_lower \<and> \<not> contains ''module'' desc_lower
         then (fst sr - 10, snd sr @ standalone_warning)
         else sr)"

text \<open>Lines 229 to 251 together: the score and rationale before the deep read.\<close>

definition heuristic_score :: "RepoCandidate \<Rightarrow> string \<Rightarrow> int \<times> string" where
  "heuristic_score candidate requirement =
     standalone_penalty candidate (affinity_rules candidate requirement)"

section \<open>The template manager (core/template_manager.py)\<close>

subsection \<open>Exceptions, paths and the file system\<close>

text \<open>
  The exceptions the modelled code raises or catches. \<open>TemplateError\<close> carries its
  message and \<open>KeyError\<close> the missing key; \<open>OSError\<close> stands for every error of the
  operating system (a missing file, a directory in the way, a program that cannot be
  started) and \<open>HTTPError\<close> for a transport failure of the HTTP client.
\<close>

datatype exn =
    TemplateError string
  | KeyError string
  | IndexError
  | TypeError
  | AttributeError
  | JSONDecodeError
  | ValidationError
  | OSError
  | HTTPError

text \<open>
  A \<open>pathlib.Path\<close> is the list of its components; an absolute path starts with its
  root component. \<open>p / s\<close> splits \<open>s\<close> at the slashes, drops empty and \<open>.\<close>
  components, and restarts from the root when \<open>s\<close> is absolute (POSIX flavour: exactly
  two leading slashes are a root of their own).
\<close>

type_synonym path = "string list"

fun split_on :: "char \<Rightarrow> string \<Rightarrow> string list" where
  "split_on c [] = [[]]"
| "split_on c (x # xs) =
     (if x = c then [] # split_on c xs
      else (case split_on c xs of [] \<Rightarrow> [[x]] | w # ws \<Rightarrow> (x # w) # ws))"

definition root_of :: "string \<Rightarrow> string" where
  "root_of s =
     (if prefix ''//'' s \<and> \<not> prefix ''///'' s then ''//''
      else if prefix ''/'' s then ''/'' else [])"

definition path_join :: "path \<Rightarrow> string \<Rightarrow> path" where
  "path_join p s =
     (let comps = filter (\<lambda>w. w \<noteq> [] \<and> w \<noteq> ''.'') (split_on CHR ''/'' s)
      in if root_of s \<noteq> [] then root_of s # comps else p @ comps)"

text \<open>
  The file system maps the paths that exist to what is there: a directory, or a file
  with its text.
\<close>

datatype node = Dir | File string

type_synonym filesystem = "path \<Rightarrow> node option"

definition exists :: "filesystem \<Rightarrow> path \<Rightarrow> bool" where
  "exists f p = (f p \<noteq> None)"

text \<open>
  \<open>p.mkdir(parents=True, exist_ok=True)\<close>: the missing ancestors and \<open>p\<close> itself become
  directories; a file in the way is an error.
\<close>

fun mkdirs :: "path list \<Rightarrow> filesystem \<Rightarrow> exn + filesystem" where
  "mkdirs [] f = Inr f"
| "mkdirs (q # qs) f =
     (case f q of
        None \<Rightarrow> mkdirs qs (f(q \<mapsto> Dir))
      | Some Dir \<Rightarrow> mkdirs qs f
      | Some (File t) \<Rightarrow> Inl OSError)"

definition mkdir :: "filesystem \<Rightarrow> path \<Rightarrow> exn + filesystem" where
  "mkdir f p = mkdirs (tl (prefixes p)) f"

text \<open>The tree below \<open>p\<close>, and \<open>p\<close> itself, removed.\<close>

definition remove_tree :: "path \<Rightarrow> filesystem \<Rightarrow> filesystem" where
  "remove_tree p f = (\<lambda>q. if prefix p q then None else f q)"

text \<open>\<open>shutil.rmtree(p)\<close>: an error when \<open>p\<close> does not exist.\<close>

definition rmtree :: "filesystem \<Rightarrow> path \<Rightarrow> exn + filesystem" where
  "rmtree f p = (if exists f p then Inr (remove_tree p f) else Inl OSError)"

text \<open>\<open>open(p, 'w')\<close> and one write of \<open>t\<close>: the parent must be a directory.\<close>

definition write_text :: "filesystem \<Rightarrow> path \<Rightarrow> string \<Rightarrow> exn + filesystem" where
  "write_text f p t =
     (case f p of
        Some Dir \<Rightarrow> Inl OSError
      | _ \<Rightarrow> if f (butlast p) = Some Dir then Inr (f(p \<mapsto> File t)) else Inl OSError)"

text \<open>
  \<open>p.read_text(encoding='utf-8', errors='ignore')\<close>: the text of a file, after the
  lenient decoding.
\<close>

definition read_text :: "filesystem \<Rightarrow> path \<Rightarrow> exn + string" where
  "read_text f p = (case f p of Some (File t) \<Rightarrow> Inr t | _ \<Rightarrow> Inl OSError)"

subsection \<open>The git command line\<close>

text \<open>
  What \<open>subprocess.run(['git'] + args, cwd=..., check=True)\<close> does is not code of the
  repository: it is a parameter, which answers from the arguments, the working
  directory and the file system with the exit status, the captured output and the
  file system it leaves. \<open>NotStarted\<close> is the program that could not be run at all.
\<close>

datatype git_outcome =
    Exited0 string filesystem
  | ExitedNonzero string filesystem
  | NotStarted

type_synonym git = "string list \<Rightarrow> path \<Rightarrow> filesystem \<Rightarrow> git_outcome"

text \<open>The state the template manager works on: the disk, and the git commands run so far.\<close>

record world =
  files :: filesystem
  git_log :: "(string list \<times> path) list"

text \<open>Sequencing: an exception skips what follows.\<close>

definition and_then ::
  "(exn + 'a) \<times> world \<Rightarrow> ('a \<Rightarrow> world \<Rightarrow> (exn + 'b) \<times> world) \<Rightarrow> (exn + 'b) \<times> world" where
  "and_then r k = (case r of (Inl e, w) \<Rightarrow> (Inl e, w) | (Inr v, w) \<Rightarrow> k v w)"

text \<open>A file system operation lifted to the world.\<close>

definition on_files :: "exn + filesystem \<Rightarrow> world \<Rightarrow> (exn + unit) \<times> world" where
  "on_files r w = (case r of Inl e \<Rightarrow> (Inl e, w) | Inr f \<Rightarrow> (Inr (), w\<lparr>files := f\<rparr>))"

text \<open>\<open>_run_git\<close>: a failed command becomes a \<open>TemplateError\<close> with the arguments and stderr.\<close>

definition run_git :: "git \<Rightarrow> string list \<Rightarrow> path \<Rightarrow> world \<Rightarrow> (exn + string) \<times> world" where
  "run_git G args cwd w =
     (let w' = w\<lparr>git_log := git_log w @ [(args, cwd)]\<rparr>
      in case G args cwd (files w) of
           Exited0 out f \<Rightarrow> (Inr (strip out), w'\<lparr>files := f\<rparr>)
         | ExitedNonzero err f \<Rightarrow>
             (Inl (TemplateError (''Git command failed: '' @ join '' '' args
                                   @ [CHR 0x0A] @ ''Error: '' @ err)),
              w'\<lparr>files := f\<rparr>)
         | NotStarted \<Rightarrow> (Inl OSError, w'))"

subsection \<open>The registry and the cache\<close>

text \<open>
  One entry of the registry document, as \<open>_load_registry\<close> leaves it: each field is
  present with a string or absent.
\<close>

record template_meta =
  meta_type :: "string option"
  meta_repository :: "string option"
  meta_branch :: "string option"
  meta_sub_path :: "string option"

definition branch_of :: "template_meta \<Rightarrow> string" where
  "branch_of meta = (case meta_branch meta of None \<Rightarrow> ''master'' | Some b \<Rightarrow> b)"

definition sparse_info :: "path \<Rightarrow> path" where
  "sparse_info d = path_join (path_join (path_join d ''.git'') ''info'') ''sparse-checkout''"

text \<open>
  Lines 167 to 174 of \<open>_fetch_git_repo\<close>: the pull, inside the only \<open>try\<close> of the
  function. A \<open>TemplateError\<close> is caught, the directory removed and the error raised
  again; any other exception passes through.
\<close>

definition pull_or_cleanup :: "git \<Rightarrow> path \<Rightarrow> string \<Rightarrow> world \<Rightarrow> (exn + unit) \<times> world" where
  "pull_or_cleanup G target_dir branch_name w =
     (case run_git G [''pull'', ''--depth'', ''1'', ''origin'', branch_name] target_dir w of
        (Inl (TemplateError m), w) \<Rightarrow>
          and_then (on_files (rmtree (files w) target_dir) w)
            (\<lambda>_ w. (Inl (TemplateError m), w))
      | (Inl e, w) \<Rightarrow> (Inl e, w)
      | (Inr out, w) \<Rightarrow> (Inr (), w))"

text \<open>
  \<open>_fetch_git_repo\<close>. The directory is made, then \<open>init\<close>, \<open>remote add\<close> and the sparse
  checkout setup run outside the \<open>try\<close>; the pull comes last.
\<close>

definition fetch_git_repo :: "git \<Rightarrow> path \<Rightarrow> template_meta \<Rightarrow> world \<Rightarrow> (exn + unit) \<times> world" where
  "fetch_git_repo G target_dir meta w =
     (case meta_repository meta of
        None \<Rightarrow> (Inl (KeyError ''repository''), w)
      | Some repo_url \<Rightarrow>
          and_then (on_files (mkdir (files w) target_dir) w) (\<lambda>_ w.
          and_then (run_git G [''init''] target_dir w) (\<lambda>_ w.
          and_then (run_git G [''remote'', ''add'', ''origin'', repo_url] target_dir w) (\<lambda>_ w.
          and_then
            (case meta_sub_path meta of
               None \<Rightarrow> (Inr (), w)
             | Some sub_path \<Rightarrow>
                 if sub_path = [] then (Inr (), w)
                 else and_then (run_git G [''config'', ''core.sparseCheckout'', ''true''] target_dir w)
                        (\<lambda>_ w. on_files (write_text (files w) (sparse_info target_dir)
                                            (sub_path @ [CHR 0x0A])) w))
            (\<lambda>_ w. pull_or_cleanup G target_dir (branch_of meta) w)))))"

text \<open>\<open>_update_git_repo\<close>.\<close>

definition update_git_repo :: "git \<Rightarrow> path \<Rightarrow> template_meta \<Rightarrow> world \<Rightarrow> (exn + unit) \<times> world" where
  "update_git_repo G target_dir meta w =
     and_then (run_git G [''fetch'', ''--depth'', ''1'', ''origin'', branch_of meta] target_dir w) (\<lambda>_ w.
     and_then (run_git G [''reset'', ''--hard'', ''origin/'' @ branch_of meta] target_dir w) (\<lambda>_ w.
       (Inr (), w)))"

definition quoted :: "string \<Rightarrow> string" where
  "quoted s = [CHR 0x27] @ s @ [CHR 0x27]"

definition str_opt :: "string option \<Rightarrow> string" where
  "str_opt v = (case v of None \<Rightarrow> ''None'' | Some s \<Rightarrow> s)"

text \<open>
  Lines 59 to 68 of \<open>get_template_path\<close>: an existing directory is a cache hit, and is
  updated only on request; a missing one is fetched.
\<close>

definition ensure_cached ::
  "git \<Rightarrow> path \<Rightarrow> template_meta \<Rightarrow> bool \<Rightarrow> world \<Rightarrow> (exn + unit) \<times> world" where
  "ensure_cached G cache_path template_meta force_update w =
     (if exists (files w) cache_path
      then (if force_update then update_git_repo G cache_path template_meta w
            else (Inr (), w))
      else fetch_git_repo G cache_path template_meta w)"

text \<open>
  \<open>get_template_path\<close>, with the registry \<open>R\<close> and the cache directory \<open>cache_base\<close> of
  the manager.
\<close>

definition get_template_path ::
  "(string \<Rightarrow> template_meta option) \<Rightarrow> path \<Rightarrow> git \<Rightarrow> string \<Rightarrow> bool \<Rightarrow> world
     \<Rightarrow> (exn + path) \<times> world" where
  "get_template_path R cache_base G template_key force_update w =
     (case R template_key of
        None \<Rightarrow>
          (Inl (TemplateError (''Template '' @ quoted template_key @ '' not defined in registry.'')), w)
      | Some template_meta \<Rightarrow>
          let cache_path = path_join cache_base template_key
          in if meta_type template_meta \<noteq> Some ''git''
             then (Inl (TemplateError (''Unsupported template type: ''
                                         @ str_opt (meta_type template_meta))), w)
             else
               and_then (ensure_cached G cache_path template_meta force_update w)
                 (\<lambda>_ w.
                    case meta_sub_path template_meta of
                      None \<Rightarrow> (Inr cache_path, w)
                    | Some sub_path \<Rightarrow>
                        if sub_path = [] then (Inr cache_path, w)
                        else
                          let target_path = path_join cache_path sub_path
                          in if \<not> exists (files w) target_path
                             then (Inl (TemplateError (''Sub-path '' @ quoted sub_path
                                          @ '' not found in repo for '' @ template_key)), w)
                             else (Inr target_path, w)))"

subsection \<open>The ad-hoc file fetch\<close>

definition target_files :: "string list" where
  "target_files = [''pom.xml'', ''package.json'', ''build.gradle'', ''README.md'']"

text \<open>
  The reading loop of \<open>fetch_analysis_files\<close>: a file that is not there is left out,
  and so is one whose reading raises.
\<close>

fun read_targets ::
  "filesystem \<Rightarrow> path \<Rightarrow> string list \<Rightarrow> (string \<Rightarrow> string option) \<Rightarrow> (string \<Rightarrow> string option)" where
  "read_targets f d [] results = results"
| "read_targets f d (filename # rest) results =
     read_targets f d rest
       (let fpath = path_join d filename
        in if exists f fpath
           then (case read_text f fpath of Inr t \<Rightarrow> results(filename \<mapsto> t) | Inl e \<Rightarrow> results)
           else results)"

text \<open>The body of the \<open>try\<close> of \<open>fetch_analysis_files\<close>, in the directory \<open>temp_path\<close>.\<close>

definition fetch_analysis_try ::
  "git \<Rightarrow> path \<Rightarrow> string \<Rightarrow> string \<Rightarrow> world \<Rightarrow> (exn + (string \<Rightarrow> string option)) \<times> world" where
  "fetch_analysis_try G temp_path repo_url branch w =
     and_then (run_git G [''init''] temp_path w) (\<lambda>_ w.
     and_then (run_git G [''remote'', ''add'', ''origin'', repo_url] temp_path w) (\<lambda>_ w.
     and_then (run_git G [''config'', ''core.sparseCheckout'', ''true''] temp_path w) (\<lambda>_ w.
     and_then (on_files (write_text (files w) (sparse_info temp_path)
                           (concat (map (\<lambda>tf. tf @ [CHR 0x0A]) target_files))) w) (\<lambda>_ w.
     and_then (run_git G [''pull'', ''--depth'', ''1'', ''origin'', branch] temp_path w) (\<lambda>_ w.
       (Inr (read_targets (files w) temp_path target_files Map.empty), w))))))"

text \<open>
  \<open>fetch_analysis_files\<close>. \<open>mkdtemp\<close> is the operating system choosing the temporary
  directory (\<open>None\<close>: it cannot create one, which is raised before the \<open>try\<close>). Both
  handlers return the empty dictionary; the directory is removed on the way out.
\<close>

definition fetch_analysis_files ::
  "git \<Rightarrow> (filesystem \<Rightarrow> path option) \<Rightarrow> string \<Rightarrow> string \<Rightarrow> world
     \<Rightarrow> (exn + (string \<Rightarrow> string option)) \<times> world" where
  "fetch_analysis_files G mkdtemp repo_url branch w =
     (case mkdtemp (files w) of
        None \<Rightarrow> (Inl OSError, w)
      | Some temp_path \<Rightarrow>
          (case fetch_analysis_try G temp_path repo_url branch
                  (w\<lparr>files := (files w)(temp_path \<mapsto> Dir)\<rparr>) of
             (r, w') \<Rightarrow>
               (Inr (case r of Inr results \<Rightarrow> results | Inl e \<Rightarrow> Map.empty),
                w'\<lparr>files := remove_tree temp_path (files w')\<rparr>)))"

section \<open>The deep read (agents/repo_scout.py)\<close>

text \<open>
  Lines 262 to 277 of \<open>_analyze_match\<close>: what the fetched files add to the score and
  the rationale.
\<close>

definition deep_insights_of ::
  "(string \<Rightarrow> string option) \<Rightarrow> int \<times> string \<Rightarrow> int \<times> string" where
  "deep_insights_of fetched sr =
     (let (score, reason) = sr;
          deep_insights = [];
          (score, reason, deep_insights) =
            (case fetched ''pom.xml'' of
               None \<Rightarrow> (score, reason, deep_insights)
             | Some pom_content \<Rightarrow>
                 let deep_insights = deep_insights @ [''Maven''];
                     (score, reason, deep_insights) =
                       (if contains ''jeecg-boot-starter'' pom_content
                        then (score + 20, reason @ '' [Confirmed: Native Jeecg Dependency]'',
                              deep_insights @ [''Jeecg-Native''])
                        else (score, reason, deep_insights));
                     deep_insights =
                       (if contains ''mybatis-plus'' pom_content
                        then deep_insights @ [''MyBatis+''] else deep_insights)
                 in (score, reason, deep_insights));
          deep_insights =
            (if fetched ''package.json'' \<noteq> None then deep_insights @ [''Node'']
             else deep_insights);
          reason =
            (if deep_insights \<noteq> []
             then reason @ '' (Deep Analysis: '' @ join '', '' deep_insights @ '')''
             else reason)
      in (score, reason))"

text \<open>
  The body of the \<open>try\<close> of lines 258 to 277. The only call that can raise is the
  fetch, before the score or the rationale is touched.
\<close>

definition deep_read_try ::
  "git \<Rightarrow> (filesystem \<Rightarrow> path option) \<Rightarrow> RepoCandidate \<Rightarrow> int \<times> string \<Rightarrow> world
     \<Rightarrow> (exn + int \<times> string) \<times> world" where
  "deep_read_try G mkdtemp candidate sr w =
     and_then (fetch_analysis_files G mkdtemp (url candidate) ''HEAD'' w)
       (\<lambda>fetched w. (Inr (deep_insights_of fetched sr), w))"

text \<open>
  \<open>_analyze_match\<close>: the heuristic score, then the deep read when it reaches 60. An
  exception of the deep read is caught and the pair built so far returned.
\<close>

definition analyze_match ::
  "git \<Rightarrow> (filesystem \<Rightarrow> path option) \<Rightarrow> RepoCandidate \<Rightarrow> string \<Rightarrow> world
     \<Rightarrow> (int \<times> string) \<times> world" where
  "analyze_match G mkdtemp candidate requirement w =
     (let sr = heuristic_score candidate requirement
      in if fst sr \<ge> 60
         then (case deep_read_try G mkdtemp candidate sr w of
                 (Inr sr', w') \<Rightarrow> (sr', w')
               | (Inl e, w') \<Rightarrow> (sr, w'))
         else (sr, w))"

section \<open>JSON values and HTTP responses\<close>

text \<open>
  What \<open>resp.json()\<close> and \<open>json.loads\<close> return. A dictionary is the list of its items,
  each key once.
\<close>

datatype json =
    JNull
  | JBool bool
  | JInt int
  | JFloat real
  | JStr string
  | JList "json list"
  | JDict "(string \<times> json) list"

text \<open>\<open>v[k]\<close> with a string key.\<close>

definition getitem :: "json \<Rightarrow> string \<Rightarrow> exn + json" where
  "getitem v k =
     (case v of
        JDict d \<Rightarrow> (case map_of d k of None \<Rightarrow> Inl (KeyError k) | Some x \<Rightarrow> Inr x)
      | _ \<Rightarrow> Inl TypeError)"

text \<open>\<open>v[0]\<close>: a dictionary from JSON has no integer key.\<close>

definition getitem0 :: "json \<Rightarrow> exn + json" where
  "getitem0 v =
     (case v of
        JList xs \<Rightarrow> (case xs of [] \<Rightarrow> Inl IndexError | x # rest \<Rightarrow> Inr x)
      | JStr t \<Rightarrow> (case t of [] \<Rightarrow> Inl IndexError | c # rest \<Rightarrow> Inr (JStr [c]))
      | JDict d \<Rightarrow> Inl (KeyError ''0'')
      | _ \<Rightarrow> Inl TypeError)"

text \<open>
  \<open>v.get(k, default)\<close> and \<open>v.get(k)\<close>: only a dictionary has the method. Python's
  \<open>None\<close> is \<open>JNull\<close>.
\<close>

definition dict_get_or :: "json \<Rightarrow> string \<Rightarrow> json \<Rightarrow> exn + json" where
  "dict_get_or v k dflt =
     (case v of
        JDict d \<Rightarrow> Inr (case map_of d k of None \<Rightarrow> dflt | Some x \<Rightarrow> x)
      | _ \<Rightarrow> Inl AttributeError)"

definition dict_get :: "json \<Rightarrow> string \<Rightarrow> exn + json" where
  "dict_get v k = dict_get_or v k JNull"

text \<open>Python's truth value of a JSON value.\<close>

definition truthy :: "json \<Rightarrow> bool" where
  "truthy v =
     (case v of
        JNull \<Rightarrow> False
      | JBool b \<Rightarrow> b
      | JInt i \<Rightarrow> i \<noteq> 0
      | JFloat x \<Rightarrow> x \<noteq> 0
      | JStr t \<Rightarrow> t \<noteq> []
      | JList xs \<Rightarrow> xs \<noteq> []
      | JDict d \<Rightarrow> d \<noteq> [])"

text \<open>
  How an f-string shows a value: a string as it is. The representation of floats and
  containers is left to the parameter \<open>repr\<close>.
\<close>

definition format_value :: "(json \<Rightarrow> string) \<Rightarrow> json \<Rightarrow> string" where
  "format_value repr v =
     (case v of
        JNull \<Rightarrow> ''None''
      | JStr t \<Rightarrow> t
      | JInt i \<Rightarrow> str_int i
      | JBool b \<Rightarrow> (if b then ''True'' else ''False'')
      | x \<Rightarrow> repr x)"

text \<open>
  The answer of the HTTP client: the request raised, or a response with its status
  code and what \<open>resp.json()\<close> gives (\<open>None\<close>: the body is not JSON and the call raises).
\<close>

datatype http_result = Raised | Response int "json option"

section \<open>The adjudicator (agents/repo_scout.py)\<close>

text \<open>
  The candidates are objects that the adjudicator changes in place: a list holds
  references, and the store gives each reference its object.
\<close>

type_synonym ref = nat

type_synonym store = "ref \<Rightarrow> RepoCandidate"

record chat_request =
  target_url :: string
  bearer :: string
  model_name :: string
  system_prompt :: string
  user_prompt :: string

text \<open>Lines 88 to 95: one entry of the prompt.\<close>

definition candidate_description :: "nat \<Rightarrow> RepoCandidate \<Rightarrow> string" where
  "candidate_description i c =
     ''Index '' @ str_int (int i) @ '':'' @ [CHR 0x0A]
     @ ''- Name: '' @ name c @ [CHR 0x0A]
     @ ''- Desc: '' @ description c @ [CHR 0x0A]
     @ ''- Stars: '' @ str_int (stars c) @ [CHR 0x0A]
     @ ''- Current Score: '' @ str_int (match_score c) @ [CHR 0x0A]
     @ ''- Analysis: '' @ analysis_reason c"

definition build_request ::
  "(string \<Rightarrow> string option) \<Rightarrow> string \<Rightarrow> RepoCandidate list \<Rightarrow> string \<Rightarrow> chat_request" where
  "build_request getenv api_key cs requirement =
     (let base_url = (case getenv ''GEMINI_BASE_URL'' of
                        None \<Rightarrow> ''https://cs.imds.ai/api/v1'' | Some u \<Rightarrow> u);
          model = (case getenv ''GEMINI_MODEL'' of
                     None \<Rightarrow> ''gemini-3-pro-preview'' | Some m \<Rightarrow> m);
          base_url = rstrip_slash base_url;
          candidate_descriptions = map (\<lambda>(i, c). candidate_description i c) (enumerate 0 cs)
      in \<lparr>target_url = base_url @ ''/chat/completions'',
          bearer = api_key,
          model_name = model,
          system_prompt = ''You are a Chief Software Architect. Help me select the best open-source repository to start a new project.'',
          user_prompt =
            ''User Requirement: '' @ [CHR 0x22] @ requirement @ [CHR 0x22, CHR 0x0A, CHR 0x0A]
            @ ''Candidates:'' @ [CHR 0x0A] @ join [CHR 0x0A] candidate_descriptions
            @ [CHR 0x0A, CHR 0x0A]
            @ ''Task: Select the ONE best candidate that most closely matches the requirement and is technically sound.''
            @ [CHR 0x0A]
            @ ''Output JSON ONLY: { '' @ [CHR 0x22] @ ''selected_index'' @ [CHR 0x22] @ '': <int>, ''
            @ [CHR 0x22] @ ''reasoning'' @ [CHR 0x22] @ '': '' @ [CHR 0x22] @ ''<string>''
            @ [CHR 0x22] @ '' }''\<rparr>)"

text \<open>Line 131: \<open>data["choices"][0]["message"]["content"]\<close>.\<close>

definition message_content :: "json \<Rightarrow> exn + json" where
  "message_content data =
     (case getitem data ''choices'' of
        Inl e \<Rightarrow> Inl e
      | Inr choices \<Rightarrow>
          (case getitem0 choices of
             Inl e \<Rightarrow> Inl e
           | Inr choice \<Rightarrow>
               (case getitem choice ''message'' of
                  Inl e \<Rightarrow> Inl e
                | Inr message \<Rightarrow> getitem message ''content'')))"

text \<open>Line 133: the code fences removed; only a string has \<open>replace\<close>.\<close>

definition clean_text :: "json \<Rightarrow> exn + string" where
  "clean_text text_resp =
     (case text_resp of
        JStr t \<Rightarrow> Inr (strip (replace ''```'' [] (replace ''```json'' [] t)))
      | _ \<Rightarrow> Inl AttributeError)"

text \<open>
  Line 139, \<open>idx is not None and 0 <= idx < len(candidates)\<close>, and the indexing of
  line 140. \<open>Inr (Some i)\<close>: the index \<open>i\<close> is taken; \<open>Inr None\<close>: the index is refused;
  \<open>Inl\<close>: the comparison or the indexing raises. A Boolean counts as 0 or 1; a float
  in range cannot index a list.
\<close>

definition checked_index :: "json \<Rightarrow> nat \<Rightarrow> exn + nat option" where
  "checked_index idx n =
     (case idx of
        JNull \<Rightarrow> Inr None
      | JInt i \<Rightarrow> Inr (if 0 \<le> i \<and> i < int n then Some (nat i) else None)
      | JBool b \<Rightarrow>
          (let i = (if b then 1 else 0) in Inr (if i < n then Some i else None))
      | JFloat x \<Rightarrow> (if 0 \<le> x \<and> x < real n then Inl TypeError else Inr None)
      | x \<Rightarrow> Inl TypeError)"

text \<open>Lines 140 to 149: the bonus, the prefixed rationale, and the move to the front.\<close>

definition promote :: "string \<Rightarrow> nat \<Rightarrow> ref list \<Rightarrow> store \<Rightarrow> ref list \<times> store" where
  "promote ai_reason idx candidates h =
     (let selected = candidates ! idx;
          h = h(selected := (h selected)\<lparr>match_score := match_score (h selected) + 10\<rparr>);
          h = h(selected := (h selected)\<lparr>analysis_reason :=
                  ''[AI SELECTED: '' @ ai_reason @ ''] '' @ analysis_reason (h selected)\<rparr>);
          candidates = take idx candidates @ drop (Suc idx) candidates;
          candidates = selected # candidates
      in (candidates, h))"

text \<open>
  Lines 128 to 151: what is done with the body of a 200 response. Every exception
  is raised before the list or a candidate is touched.
\<close>

definition apply_decision ::
  "(string \<Rightarrow> json option) \<Rightarrow> (json \<Rightarrow> string) \<Rightarrow> json option \<Rightarrow> ref list \<Rightarrow> store
     \<Rightarrow> exn + ref list \<times> store" where
  "apply_decision loads repr body candidates h =
     (case body of
        None \<Rightarrow> Inl JSONDecodeError
      | Some data \<Rightarrow>
          (case message_content data of
             Inl e \<Rightarrow> Inl e
           | Inr text_resp \<Rightarrow>
               (case clean_text text_resp of
                  Inl e \<Rightarrow> Inl e
                | Inr t \<Rightarrow>
                    (case loads t of
                       None \<Rightarrow> Inl JSONDecodeError
                     | Some decision \<Rightarrow>
                         (case dict_get decision ''selected_index'' of
                            Inl e \<Rightarrow> Inl e
                          | Inr idx \<Rightarrow>
                              (case dict_get_or decision ''reasoning''
                                      (JStr ''No reason provided.'') of
                                 Inl e \<Rightarrow> Inl e
                               | Inr ai_reason \<Rightarrow>
                                   (case checked_index idx (length candidates) of
                                      Inl e \<Rightarrow> Inl e
                                    | Inr None \<Rightarrow> Inr (candidates, h)
                                    | Inr (Some i) \<Rightarrow>
                                        Inr (promote (format_value repr ai_reason) i
                                               candidates h))))))))"

text \<open>
  \<open>_evaluate_candidates_with_ai\<close>. \<open>getenv\<close> is the environment, \<open>post\<close> the reasoning
  service, \<open>loads\<close> is \<open>json.loads\<close> (\<open>None\<close>: it raises). The handlers of lines 153
  and 158 only log, and the list is returned as it then is.
\<close>

definition evaluate_candidates_with_ai ::
  "(string \<Rightarrow> string option) \<Rightarrow> (chat_request \<Rightarrow> http_result) \<Rightarrow> (string \<Rightarrow> json option)
     \<Rightarrow> (json \<Rightarrow> string) \<Rightarrow> ref list \<Rightarrow> string \<Rightarrow> store \<Rightarrow> ref list \<times> store" where
  "evaluate_candidates_with_ai getenv post loads repr candidates requirement h =
     (case getenv ''GEMINI_API_KEY'' of
        None \<Rightarrow> (candidates, h)
      | Some api_key \<Rightarrow>
          if api_key = [] then (candidates, h)
          else
            (case post (build_request getenv api_key (map h candidates) requirement) of
               Raised \<Rightarrow> (candidates, h)
             | Response status_code body \<Rightarrow>
                 if status_code = 200
                 then (case apply_decision loads repr body candidates h of
                         Inl e \<Rightarrow> (candidates, h)
                       | Inr r \<Rightarrow> r)
                 else (candidates, h)))"

section \<open>Discovery and the pipeline (agents/repo_scout.py)\<close>

text \<open>
  One item of the search result, lines 187 to 192. \<open>validate\<close> is the constructor of
  the pydantic model, which takes the four raw values and refuses some (\<open>None\<close>: it
  raises).
\<close>

definition candidate_of_item ::
  "(json \<Rightarrow> json \<Rightarrow> json \<Rightarrow> json \<Rightarrow> RepoCandidate option) \<Rightarrow> json \<Rightarrow> exn + RepoCandidate" where
  "candidate_of_item validate item =
     (case item of
        JDict d \<Rightarrow>
          (let item_name = (case map_of d ''name'' of None \<Rightarrow> JNull | Some x \<Rightarrow> x);
               clone_url = (case map_of d ''clone_url'' of None \<Rightarrow> JNull | Some x \<Rightarrow> x);
               desc = (case map_of d ''description'' of None \<Rightarrow> JNull | Some x \<Rightarrow> x);
               desc = (if truthy desc then desc else JStr ''No description provided'');
               star_count = (case map_of d ''stargazers_count'' of None \<Rightarrow> JInt 0 | Some x \<Rightarrow> x)
           in case validate item_name clone_url desc star_count of
                None \<Rightarrow> Inl ValidationError
              | Some c \<Rightarrow> Inr c)
      | _ \<Rightarrow> Inl AttributeError)"

fun candidates_of_items ::
  "(json \<Rightarrow> json \<Rightarrow> json \<Rightarrow> json \<Rightarrow> RepoCandidate option) \<Rightarrow> json list
     \<Rightarrow> exn + RepoCandidate list" where
  "candidates_of_items validate [] = Inr []"
| "candidates_of_items validate (item # rest) =
     (case candidate_of_item validate item of
        Inl e \<Rightarrow> Inl e
      | Inr c \<Rightarrow>
          (case candidates_of_items validate rest of
             Inl e \<Rightarrow> Inl e
           | Inr cs \<Rightarrow> Inr (c # cs)))"

text \<open>
  The loop \<open>for item in items\<close>: over a list its elements; over a dictionary or a
  string the keys or characters, which have no \<open>get\<close>; anything else is not iterable.
\<close>

definition candidates_of ::
  "(json \<Rightarrow> json \<Rightarrow> json \<Rightarrow> json \<Rightarrow> RepoCandidate option) \<Rightarrow> json \<Rightarrow> exn + RepoCandidate list" where
  "candidates_of validate items =
     (case items of
        JList xs \<Rightarrow> candidates_of_items validate xs
      | JDict d \<Rightarrow> (if d = [] then Inr [] else Inl AttributeError)
      | JStr t \<Rightarrow> (if t = [] then Inr [] else Inl AttributeError)
      | _ \<Rightarrow> Inl TypeError)"

text \<open>
  \<open>_search_github_real\<close>. \<open>get\<close> is the search index, asked with the biased query.
  Every exception ends in the handler of line 195, which returns the empty list.
\<close>

definition search_github_real ::
  "(string \<Rightarrow> http_result) \<Rightarrow> (json \<Rightarrow> json \<Rightarrow> json \<Rightarrow> json \<Rightarrow> RepoCandidate option) \<Rightarrow> string
     \<Rightarrow> RepoCandidate list" where
  "search_github_real get validate query =
     (case get (query @ '' language:java'') of
        Raised \<Rightarrow> []
      | Response status_code body \<Rightarrow>
          if status_code \<noteq> 200 then []
          else (case body of
                  None \<Rightarrow> []
                | Some data \<Rightarrow>
                    (case dict_get_or data ''items'' (JList []) of
                       Inl e \<Rightarrow> []
                     | Inr items \<Rightarrow>
                         (case candidates_of validate items of
                            Inl e \<Rightarrow> []
                          | Inr candidates \<Rightarrow> candidates))))"

text \<open>\<open>_mock_search_github\<close>: the built-in candidates.\<close>

definition mock_search_github :: "string \<Rightarrow> RepoCandidate list" where
  "mock_search_github query =
     [\<lparr>name = ''jeecg-boot-module-demo'',
       url = ''https://github.com/jeecgboot/jeecg-boot.git'',
       description = ''Official JeecgBoot demo module. Contains standard CRUD patterns.'',
       stars = 3500, match_score = 0, analysis_reason = []\<rparr>,
      \<lparr>name = ''jeepay-payment-system'',
       url = ''https://github.com/jeequan/jeepay.git'',
       description = ''Open source payment system. High complexity, standalone app.'',
       stars = 1200, match_score = 0, analysis_reason = []\<rparr>,
      \<lparr>name = ''stripe-java-sdk'',
       url = ''https://github.com/stripe/stripe-java.git'',
       description = ''Official Stripe SDK. Low level library, not a module.'',
       stars = 5000, match_score = 0, analysis_reason = []\<rparr>]"

text \<open>Lines 35 to 39 of \<open>search_and_analyze\<close>: the search phase with its fallback.\<close>

definition discover ::
  "(string \<Rightarrow> http_result) \<Rightarrow> (json \<Rightarrow> json \<Rightarrow> json \<Rightarrow> json \<Rightarrow> RepoCandidate option) \<Rightarrow> string
     \<Rightarrow> RepoCandidate list" where
  "discover get validate requirement =
     (let candidates = search_github_real get validate requirement
      in if candidates = [] then mock_search_github requirement else candidates)"

text \<open>Lines 44 to 53: each candidate scored in turn, the world threaded through.\<close>

fun analyze_candidates ::
  "git \<Rightarrow> (filesystem \<Rightarrow> path option) \<Rightarrow> string \<Rightarrow> RepoCandidate list \<Rightarrow> world
     \<Rightarrow> RepoCandidate list \<times> world" where
  "analyze_candidates G mkdtemp requirement [] w = ([], w)"
| "analyze_candidates G mkdtemp requirement (cand # rest) w =
     (case analyze_match G mkdtemp cand requirement w of
        ((score, reason), w') \<Rightarrow>
          (case analyze_candidates G mkdtemp requirement rest w' of
             (results, w'') \<Rightarrow>
               (cand\<lparr>match_score := score, analysis_reason := reason\<rparr> # results, w'')))"

text \<open>
  \<open>search_and_analyze\<close>. The sort of line 59 is stable and descending. The candidates
  are distinct objects, so the adjudicator is given the references \<open>0, 1, ...\<close> into
  the sorted list.
\<close>

definition search_and_analyze ::
  "(string \<Rightarrow> http_result) \<Rightarrow> (json \<Rightarrow> json \<Rightarrow> json \<Rightarrow> json \<Rightarrow> RepoCandidate option)
     \<Rightarrow> git \<Rightarrow> (filesystem \<Rightarrow> path option)
     \<Rightarrow> (string \<Rightarrow> string option) \<Rightarrow> (chat_request \<Rightarrow> http_result) \<Rightarrow> (string \<Rightarrow> json option)
     \<Rightarrow> (json \<Rightarrow> string) \<Rightarrow> string \<Rightarrow> world \<Rightarrow> RepoCandidate list \<times> world" where
  "search_and_analyze get validate G mkdtemp getenv post loads repr requirement w =
     (let candidates = discover get validate requirement;
          (results, w) = analyze_candidates G mkdtemp requirement candidates w;
          results = sort_key (\<lambda>x. - match_score x) results
      in if results \<noteq> []
         then (case evaluate_candidates_with_ai getenv post loads repr
                      [0 ..< length results] requirement (\<lambda>r. results ! r) of
                 (refs, h) \<Rightarrow> (map h refs, w))
         else (results, w))"

section \<open>Concrete scenarios\<close>

text \<open>Two of the built-in candidates, an empty disk, and a temporary directory.\<close>

definition jeecg_demo :: RepoCandidate where
  "jeecg_demo = mock_search_github [] ! 0"

definition jeepay :: RepoCandidate where
  "jeepay = mock_search_github [] ! 1"

definition empty_world :: world where
  "empty_world = \<lparr>files = Map.empty, git_log = []\<rparr>"

definition tmp_dir :: "filesystem \<Rightarrow> path option" where
  "tmp_dir f = Some [''/'', ''tmp'', ''scout'']"

definition no_tmp_dir :: "filesystem \<Rightarrow> path option" where
  "no_tmp_dir f = None"

text \<open>
  Two behaviours of git. \<open>git_serving tree\<close> always succeeds: \<open>init\<close> makes \<open>.git/info\<close>
  and \<open>pull\<close> puts \<open>tree\<close> into the working directory. \<open>git_failing_at cmd\<close> exits with
  an error on the command \<open>cmd\<close>, touching nothing, and succeeds on the others without
  ever bringing a file.
\<close>

fun plant :: "path \<Rightarrow> (path \<times> node) list \<Rightarrow> filesystem \<Rightarrow> filesystem" where
  "plant cwd [] f = f"
| "plant cwd ((p, n) # rest) f = plant cwd rest (f(cwd @ p \<mapsto> n))"

definition git_init_dirs :: "(path \<times> node) list" where
  "git_init_dirs = [([''.git''], Dir), ([''.git'', ''info''], Dir)]"

definition git_serving :: "(path \<times> node) list \<Rightarrow> git" where
  "git_serving tree args cwd f =
     (if hd args = ''init'' then Exited0 [] (plant cwd git_init_dirs f)
      else if hd args = ''pull'' then Exited0 [] (plant cwd tree f)
      else Exited0 [] f)"

definition git_failing_at :: "string \<Rightarrow> git" where
  "git_failing_at cmd args cwd f =
     (if hd args = cmd then ExitedNonzero ''fatal'' f
      else if hd args = ''init'' then Exited0 [] (plant cwd git_init_dirs f)
      else Exited0 [] f)"

definition pom_tree :: "(path \<times> node) list" where
  "pom_tree = [([''pom.xml''], File ''<artifactId>jeecg-boot-starter</artifactId>'')]"

text \<open>A registry of two entries, with and without a sub-path, and a repository tree.\<close>

definition demo_registry :: "string \<Rightarrow> template_meta option" where
  "demo_registry =
     [''jeecg-demo-local'' \<mapsto>
        \<lparr>meta_type = Some ''git'',
         meta_repository = Some ''https://github.com/jeecgboot/jeecg-boot.git'',
         meta_branch = Some ''master'',
         meta_sub_path = Some ''jeecg-module-demo''\<rparr>,
      ''plain'' \<mapsto>
        \<lparr>meta_type = Some ''git'',
         meta_repository = Some ''https://github.com/jeecgboot/jeecg-boot.git'',
         meta_branch = None,
         meta_sub_path = None\<rparr>]"

definition demo_tree :: "(path \<times> node) list" where
  "demo_tree =
     [([''jeecg-module-demo''], Dir),
      ([''jeecg-module-demo'', ''pom.xml''], File ''<project/>'')]"

definition cache_dir :: path where
  "cache_dir = [''.template_cache'']"

text \<open>The world after the first resolve of \<open>jeecg-demo-local\<close> has filled the cache.\<close>

definition cached_world :: world where
  "cached_world =
     snd (get_template_path demo_registry cache_dir (git_serving demo_tree)
            ''jeecg-demo-local'' False empty_world)"

text \<open>
  Three ranked candidates \<open>A(80)\<close>, \<open>B(60)\<close>, \<open>C(40)\<close> at the references 0, 1, 2; an
  environment with and without the credential; a reasoning service that answers with
  a fenced decision for a given index, and one that answers with a given status; a
  \<open>json.loads\<close> that knows the two decisions used here.
\<close>

definition abc_store :: store where
  "abc_store r =
     (if r = 0 then \<lparr>name = ''A'', url = ''https://example.org/a.git'', description = ''first'',
                      stars = 3, match_score = 80, analysis_reason = ''Good match.''\<rparr>
      else if r = 1 then \<lparr>name = ''B'', url = ''https://example.org/b.git'', description = ''second'',
                      stars = 2, match_score = 60, analysis_reason = ''Fair match.''\<rparr>
      else \<lparr>name = ''C'', url = ''https://example.org/c.git'', description = ''third'',
                      stars = 1, match_score = 40, analysis_reason = ''Basic match.''\<rparr>)"

definition key_env :: "string \<Rightarrow> string option" where
  "key_env v = (if v = ''GEMINI_API_KEY'' then Some ''secret'' else None)"

definition no_key_env :: "string \<Rightarrow> string option" where
  "no_key_env v = None"

definition chat_body :: "string \<Rightarrow> json" where
  "chat_body t = JDict [(''choices'', JList [JDict [(''message'', JDict [(''content'', JStr t)])]])]"

definition decision_text :: "int \<Rightarrow> string" where
  \<open>decision_text i = ''{"selected_index": '' @ str_int i @ '', "reasoning": "Best fit"}''\<close>

definition fenced :: "string \<Rightarrow> string" where
  "fenced t = ''```json'' @ [CHR 0x0A] @ t @ [CHR 0x0A] @ ''```''"

definition service_selecting :: "int \<Rightarrow> chat_request \<Rightarrow> http_result" where
  "service_selecting i req = Response 200 (Some (chat_body (fenced (decision_text i))))"

definition service_status :: "int \<Rightarrow> chat_request \<Rightarrow> http_result" where
  "service_status code req = Response code None"

definition loads_decision :: "string \<Rightarrow> json option" where
  "loads_decision t =
     (if t = decision_text 2
      then Some (JDict [(''selected_index'', JInt 2), (''reasoning'', JStr ''Best fit'')])
      else if t = decision_text 5
      then Some (JDict [(''selected_index'', JInt 5), (''reasoning'', JStr ''Best fit'')])
      else None)"

definition no_repr :: "json \<Rightarrow> string" where
  "no_repr v = []"

text \<open>
  A constructor of the candidate model that accepts strings and an integer only, and
  three behaviours of the search index: it cannot be reached, it answers with a
  status and no body, it answers 200 with the given items.
\<close>

definition strict_validate :: "json \<Rightarrow> json \<Rightarrow> json \<Rightarrow> json \<Rightarrow> RepoCandidate option" where
  "strict_validate n u d s =
     (case (n, u, d, s) of
        (JStr n', JStr u', JStr d', JInt s') \<Rightarrow>
          Some \<lparr>name = n', url = u', description = d', stars = s',
                match_score = 0, analysis_reason = []\<rparr>
      | _ \<Rightarrow> None)"

definition index_down :: "string \<Rightarrow> http_result" where
  "index_down q = Raised"

definition index_status :: "int \<Rightarrow> string \<Rightarrow> http_result" where
  "index_status code q = Response code None"

definition index_items :: "json list \<Rightarrow> string \<Rightarrow> http_result" where
  "index_items items q =
     Response 200 (Some (JDict [(''total_count'', JInt (int (length items))),
                                (''items'', JList items)]))"

definition pay_item :: json where
  "pay_item =
     JDict [(''name'', JStr ''pay-java''),
            (''clone_url'', JStr ''https://github.com/example/pay-java.git''),
            (''description'', JNull),
            (''stargazers_count'', JInt 7)]"

text \<open>
  The commands of a fresh fetch into \<open>d\<close>, in the order \<open>_fetch_git_repo\<close> runs them;
  the sparse checkout is configured only for a sub-path that is set.
\<close>

definition fresh_sequence ::
  "path \<Rightarrow> string \<Rightarrow> string \<Rightarrow> string option \<Rightarrow> (string list \<times> path) list" where
  "fresh_sequence d repo_url branch_name sub =
     [([''init''], d), ([''remote'', ''add'', ''origin'', repo_url], d)]
     @ (case sub of
          None \<Rightarrow> []
        | Some sub_path \<Rightarrow>
            if sub_path = [] then [] else [([''config'', ''core.sparseCheckout'', ''true''], d)])
     @ [([''pull'', ''--depth'', ''1'', ''origin'', branch_name], d)]"

section \<open>The heuristic scorer and the deep read: properties\<close>

lemma deep_insights_shape:
  "\<exists>bonus suffix. deep_insights_of fetched (s, r) = (s + bonus, r @ suffix)
                  \<and> (bonus = 0 \<or> bonus = 20)"
  by (auto simp: deep_insights_of_def Let_def split: option.splits)

lemma deep_insights_no_signal:
  "fetched ''pom.xml'' = None \<Longrightarrow> fetched ''package.json'' = None
   \<Longrightarrow> deep_insights_of fetched sr = sr"
  by (cases sr) (simp add: deep_insights_of_def)

lemma analyze_match_below:
  "fst (heuristic_score c r) < 60 \<Longrightarrow> analyze_match G mk c r w = (heuristic_score c r, w)"
  by (simp add: analyze_match_def Let_def)

lemma analyze_match_raised:
  assumes "60 \<le> fst (heuristic_score c r)"
    and "fst (fetch_analysis_files G mk (url c) ''HEAD'' w) = Inl e"
  shows "fst (analyze_match G mk c r w) = heuristic_score c r"
  using assms
  by (cases "fetch_analysis_files G mk (url c) ''HEAD'' w")
     (simp add: analyze_match_def Let_def deep_read_try_def and_then_def)

lemma analyze_match_fetched:
  assumes "60 \<le> fst (heuristic_score c r)"
    and "fst (fetch_analysis_files G mk (url c) ''HEAD'' w) = Inr m"
  shows "fst (analyze_match G mk c r w) = deep_insights_of m (heuristic_score c r)"
  using assms
  by (cases "fetch_analysis_files G mk (url c) ''HEAD'' w")
     (simp add: analyze_match_def Let_def deep_read_try_def and_then_def)

lemma analyze_match_above:
  assumes "60 \<le> fst (heuristic_score c r)"
  shows "fst (analyze_match G mk c r w) =
           deep_insights_of
             (case fst (fetch_analysis_files G mk (url c) ''HEAD'' w) of
                Inr m \<Rightarrow> m | Inl e \<Rightarrow> Map.empty)
             (heuristic_score c r)"
proof (cases "fst (fetch_analysis_files G mk (url c) ''HEAD'' w)")
  case (Inl e)
  with assms show ?thesis
    by (simp add: analyze_match_raised deep_insights_no_signal)
next
  case (Inr m)
  with assms show ?thesis
    by (simp add: analyze_match_fetched)
qed

lemma analyze_match_some_files:
  "\<exists>fetched. fst (analyze_match G mk c r w) = deep_insights_of fetched (heuristic_score c r)"
proof (cases "60 \<le> fst (heuristic_score c r)")
  case True
  then show ?thesis using analyze_match_above by blast
next
  case False
  then have "fst (analyze_match G mk c r w) = deep_insights_of Map.empty (heuristic_score c r)"
    by (simp add: analyze_match_below deep_insights_no_signal)
  then show ?thesis by blast
qed

text \<open>
  C7: when the lower-cased description contains the application keyword (\<open>system\<close> in
  the source) and not the module keyword (\<open>module\<close>), the heuristic score is the score
  of the affinity rules minus the fixed penalty 10, and the rationale is the rationale
  of the affinity rules with the cautionary note appended; it is not replaced. The
  pair returned by \<open>_analyze_match\<close> keeps both: its score is that score plus the bonus
  of the deep read (0 or 20), its rationale continues that rationale.
\<close>

theorem standalone_penalty_appends_note:
  assumes "contains ''system'' (lower (description c))"
    and "\<not> contains ''module'' (lower (description c))"
  shows "heuristic_score c req =
           (fst (affinity_rules c req) - 10, snd (affinity_rules c req) @ standalone_warning)
       \<and> (\<exists>bonus suffix.
             fst (analyze_match G mk c req w) =
               (fst (affinity_rules c req) - 10 + bonus,
                snd (affinity_rules c req) @ standalone_warning @ suffix)
             \<and> (bonus = 0 \<or> bonus = 20))"
proof -
  have h: "heuristic_score c req =
           (fst (affinity_rules c req) - 10, snd (affinity_rules c req) @ standalone_warning)"
    using assms by (simp add: heuristic_score_def standalone_penalty_def)
  obtain fetched where
    f: "fst (analyze_match G mk c req w) = deep_insights_of fetched (heuristic_score c req)"
    using analyze_match_some_files by blast
  from deep_insights_shape [of fetched "fst (affinity_rules c req) - 10"
        "snd (affinity_rules c req) @ standalone_warning"]
  show ?thesis using h f by auto
qed

theorem standalone_penalty_appends_note_witness:
  "contains ''system'' (lower (description jeepay))
   \<and> \<not> contains ''module'' (lower (description jeepay))
   \<and> affinity_rules jeepay ''payment gateway'' = (50, ''Basic match.'')
   \<and> heuristic_score jeepay ''payment gateway''
       = (40, ''Basic match. Warning: Standalone system, migration might be complex.'')"
proof -
  have a: "contains ''system'' (lower (description jeepay))" by code_simp
  have b: "\<not> contains ''module'' (lower (description jeepay))" by code_simp
  have c: "affinity_rules jeepay ''payment gateway'' = (50, ''Basic match.'')" by code_simp
  have e: "''Basic match.'' @ standalone_warning
             = ''Basic match. Warning: Standalone system, migration might be complex.''"
    by (simp add: standalone_warning_def)
  from standalone_penalty_appends_note [OF a b, of "''payment gateway''"] a b c e
  show ?thesis by simp
qed

text \<open>
  C8, as stated, fails: \<open>_analyze_match\<close> is not a function of the candidate and the
  requirement alone. For the same candidate and requirement it returns 80 when the
  pull of the deep read fails, and 100 with a longer rationale when the pull brings a
  \<open>pom.xml\<close> naming the starter dependency.
\<close>

theorem analyze_match_not_pure_counterexample:
  "fst (analyze_match (git_failing_at ''pull'') tmp_dir jeecg_demo ''jeecg module for demo''
          empty_world)
     = (80, ''High affinity: Jeecg module pattern detected.'')
   \<and> fst (analyze_match (git_serving pom_tree) tmp_dir jeecg_demo ''jeecg module for demo''
            empty_world)
     = (100, ''High affinity: Jeecg module pattern detected. [Confirmed: Native Jeecg Dependency] (Deep Analysis: Maven, Jeecg-Native)'')"
  by code_simp

text \<open>
  C8, amended: the score and rationale of the heuristic rules are computed from the
  candidate and the requirement alone. When that score is below 60, \<open>_analyze_match\<close>
  returns exactly that pair and does no I/O (the disk and the log of git commands are
  as before). When it is 60 or more, the result is that pair combined with the files
  the fetch returned (no file when the fetch raised), and with nothing else. In both
  cases a pair is returned: no exception leaves the function.
\<close>

theorem analyze_match_determined_by_inputs_and_fetch:
  "(fst (heuristic_score c r) < 60 \<longrightarrow>
      analyze_match G mk c r w = (heuristic_score c r, w))
   \<and> (60 \<le> fst (heuristic_score c r) \<longrightarrow>
        fst (analyze_match G mk c r w) =
          deep_insights_of
            (case fst (fetch_analysis_files G mk (url c) ''HEAD'' w) of
               Inr m \<Rightarrow> m | Inl e \<Rightarrow> Map.empty)
            (heuristic_score c r))"
  using analyze_match_below analyze_match_above by blast

theorem analyze_match_determined_by_inputs_and_fetch_witness:
  "fst (heuristic_score jeepay ''payment gateway'') < 60
   \<and> analyze_match (git_serving pom_tree) tmp_dir jeepay ''payment gateway'' empty_world
       = ((40, ''Basic match. Warning: Standalone system, migration might be complex.''),
          empty_world)
   \<and> 60 \<le> fst (heuristic_score jeecg_demo ''jeecg module for demo'')
   \<and> fst (analyze_match (git_serving pom_tree) no_tmp_dir jeecg_demo ''jeecg module for demo'' empty_world)
       = (80, ''High affinity: Jeecg module pattern detected.'')"
proof -
  have a: "heuristic_score jeepay ''payment gateway''
             = (40, ''Basic match. Warning: Standalone system, migration might be complex.'')"
    by code_simp
  have b: "heuristic_score jeecg_demo ''jeecg module for demo''
             = (80, ''High affinity: Jeecg module pattern detected.'')"
    by code_simp
  have c: "fst (fetch_analysis_files (git_serving pom_tree) no_tmp_dir (url jeecg_demo) ''HEAD'' empty_world)
             = Inl OSError"
    by (simp add: fetch_analysis_files_def no_tmp_dir_def)
  from analyze_match_determined_by_inputs_and_fetch
         [of jeepay "''payment gateway''" "git_serving pom_tree" tmp_dir empty_world]
       analyze_match_determined_by_inputs_and_fetch
         [of jeecg_demo "''jeecg module for demo''" "git_serving pom_tree" no_tmp_dir empty_world]
       a b c
  show ?thesis by (simp add: deep_insights_no_signal)
qed

lemma fetch_analysis_files_returns:
  assumes "mk (files w) = Some t"
  shows "fst (fetch_analysis_files G mk u b w) =
           Inr (case fst (fetch_analysis_try G t u b (w\<lparr>files := (files w)(t \<mapsto> Dir)\<rparr>)) of
                  Inr results \<Rightarrow> results | Inl e \<Rightarrow> Map.empty)"
  using assms by (simp add: fetch_analysis_files_def split: prod.splits)

lemma fetch_analysis_files_cleans:
  assumes "mk (files w) = Some t"
  shows "\<not> exists (files (snd (fetch_analysis_files G mk u b w))) (t @ p)"
  using assms by (simp add: fetch_analysis_files_def exists_def remove_tree_def split: prod.splits)

text \<open>
  C9: whenever the temporary directory can be made, \<open>fetch_analysis_files\<close> returns a
  dictionary, whatever git and the disk do; when a step of the fetch raises (a git
  command that fails or cannot be started, the sparse file that cannot be written) the
  dictionary is empty. \<open>_analyze_match\<close> always returns a pair; when the fetch raised
  after all, or brought neither \<open>pom.xml\<close> nor \<open>package.json\<close>, that pair is the score
  and rationale from before the inspection.
\<close>

theorem deep_inspection_never_raises:
  "(\<forall>t. mk (files w) = Some t \<longrightarrow>
       (\<exists>m. fst (fetch_analysis_files G mk u b w) = Inr m)
     \<and> (\<forall>e. fst (fetch_analysis_try G t u b (w\<lparr>files := (files w)(t \<mapsto> Dir)\<rparr>)) = Inl e
            \<longrightarrow> fst (fetch_analysis_files G mk u b w) = Inr Map.empty))
   \<and> ((\<exists>e. fst (fetch_analysis_files G mk (url c) ''HEAD'' w) = Inl e)
        \<or> (\<exists>m. fst (fetch_analysis_files G mk (url c) ''HEAD'' w) = Inr m
                \<and> m ''pom.xml'' = None \<and> m ''package.json'' = None)
       \<longrightarrow> fst (analyze_match G mk c r w) = heuristic_score c r)"
proof (intro conjI allI impI)
  fix t assume "mk (files w) = Some t"
  then show "\<exists>m. fst (fetch_analysis_files G mk u b w) = Inr m"
    by (simp add: fetch_analysis_files_returns)
next
  fix t e
  assume "mk (files w) = Some t"
    and "fst (fetch_analysis_try G t u b (w\<lparr>files := (files w)(t \<mapsto> Dir)\<rparr>)) = Inl e"
  then show "fst (fetch_analysis_files G mk u b w) = Inr Map.empty"
    by (simp add: fetch_analysis_files_returns)
next
  assume a: "(\<exists>e. fst (fetch_analysis_files G mk (url c) ''HEAD'' w) = Inl e)
        \<or> (\<exists>m. fst (fetch_analysis_files G mk (url c) ''HEAD'' w) = Inr m
                \<and> m ''pom.xml'' = None \<and> m ''package.json'' = None)"
  show "fst (analyze_match G mk c r w) = heuristic_score c r"
  proof (cases "60 \<le> fst (heuristic_score c r)")
    case False
    then show ?thesis by (simp add: analyze_match_below)
  next
    case True
    from a show ?thesis
    proof
      assume "\<exists>e. fst (fetch_analysis_files G mk (url c) ''HEAD'' w) = Inl e"
      then show ?thesis using True analyze_match_raised by blast
    next
      assume "\<exists>m. fst (fetch_analysis_files G mk (url c) ''HEAD'' w) = Inr m
                \<and> m ''pom.xml'' = None \<and> m ''package.json'' = None"
      then show ?thesis using True
        by (auto simp: analyze_match_fetched deep_insights_no_signal)
    qed
  qed
qed

theorem deep_inspection_never_raises_witness:
  "tmp_dir (files empty_world) = Some [''/'', ''tmp'', ''scout'']
   \<and> isl (fst (fetch_analysis_try (git_failing_at ''pull'') [''/'', ''tmp'', ''scout'']
            (url jeecg_demo) ''HEAD''
            (empty_world\<lparr>files := (files empty_world)([''/'', ''tmp'', ''scout''] \<mapsto> Dir)\<rparr>)))
   \<and> fst (fetch_analysis_files (git_failing_at ''pull'') tmp_dir (url jeecg_demo) ''HEAD''
            empty_world) = Inr Map.empty
   \<and> fst (analyze_match (git_failing_at ''pull'') tmp_dir jeecg_demo ''jeecg module for demo''
            empty_world) = (80, ''High affinity: Jeecg module pattern detected.'')
   \<and> fst (fetch_analysis_files (git_failing_at ''pull'') no_tmp_dir (url jeecg_demo) ''HEAD''
            empty_world) = Inl OSError
   \<and> fst (analyze_match (git_failing_at ''pull'') no_tmp_dir jeecg_demo ''jeecg module for demo''
            empty_world) = (80, ''High affinity: Jeecg module pattern detected.'')"
proof -
  have a: "tmp_dir (files empty_world) = Some [''/'', ''tmp'', ''scout'']"
    by (simp add: tmp_dir_def)
  have b: "isl (fst (fetch_analysis_try (git_failing_at ''pull'') [''/'', ''tmp'', ''scout'']
            (url jeecg_demo) ''HEAD''
            (empty_world\<lparr>files := (files empty_world)([''/'', ''tmp'', ''scout''] \<mapsto> Dir)\<rparr>)))"
    by code_simp
  have c: "heuristic_score jeecg_demo ''jeecg module for demo''
             = (80, ''High affinity: Jeecg module pattern detected.'')"
    by code_simp
  have d: "fst (fetch_analysis_files (git_failing_at ''pull'') no_tmp_dir (url jeecg_demo) ''HEAD''
            empty_world) = Inl OSError"
    by (simp add: fetch_analysis_files_def no_tmp_dir_def)
  note t1 = deep_inspection_never_raises
         [of tmp_dir empty_world "git_failing_at ''pull''" "url jeecg_demo" "''HEAD''"
             jeecg_demo "''jeecg module for demo''"]
  note t2 = deep_inspection_never_raises
         [of no_tmp_dir empty_world "git_failing_at ''pull''" "url jeecg_demo" "''HEAD''"
             jeecg_demo "''jeecg module for demo''"]
  have e: "fst (fetch_analysis_files (git_failing_at ''pull'') tmp_dir (url jeecg_demo) ''HEAD''
            empty_world) = Inr Map.empty"
    using t1 a b unfolding isl_def by blast
  have f: "fst (analyze_match (git_failing_at ''pull'') tmp_dir jeecg_demo ''jeecg module for demo''
            empty_world) = heuristic_score jeecg_demo ''jeecg module for demo''"
    using t1 e by simp
  have g: "fst (analyze_match (git_failing_at ''pull'') no_tmp_dir jeecg_demo ''jeecg module for demo''
            empty_world) = heuristic_score jeecg_demo ''jeecg module for demo''"
    using t2 d by blast
  from a b c d e f g show ?thesis by simp
qed

section \<open>The cache: properties\<close>

lemma run_git_log: "git_log (snd (run_git G a c w)) = git_log w @ [(a, c)]"
  by (simp add: run_git_def Let_def split: git_outcome.splits)

lemma on_files_log: "git_log (snd (on_files r w)) = git_log w"
  by (simp add: on_files_def split: sum.splits)

text \<open>
  The handler around the pull: when the pull ends in a \<open>TemplateError\<close>, the directory
  is no longer there.
\<close>

lemma pull_failure_removes_directory:
  assumes "fst (pull_or_cleanup G d b w) = Inl (TemplateError m)"
  shows "\<not> exists (files (snd (pull_or_cleanup G d b w))) d"
proof (cases "G [''pull'', ''--depth'', ''1'', ''origin'', b] d (files w)")
  case (Exited0 out f)
  with assms show ?thesis
    by (simp add: pull_or_cleanup_def run_git_def Let_def)
next
  case (ExitedNonzero err f)
  with assms show ?thesis
    by (cases "exists f d")
       (simp_all add: pull_or_cleanup_def run_git_def Let_def and_then_def on_files_def
          rmtree_def remove_tree_def exists_def)
next
  case NotStarted
  with assms show ?thesis
    by (simp add: pull_or_cleanup_def run_git_def Let_def)
qed

text \<open>
  C4 is what the comment in \<open>_fetch_git_repo\<close> intends, and the code does it for the
  pull only. Evaluated on an uncached key: when the pull fails the directory is gone
  afterwards; when \<open>init\<close>, \<open>remote add\<close> or the sparse checkout setup fails the directory
  stays. After the failed \<open>init\<close>, a second resolve finds the directory, takes it for a
  cache hit, runs no git command and returns the path of the empty directory.
\<close>

theorem fetch_failure_before_pull_leaves_directory:
  "isl (fst (get_template_path demo_registry cache_dir (git_failing_at ''pull'') ''plain'' False
               empty_world))
   \<and> \<not> exists (files (snd (get_template_path demo_registry cache_dir (git_failing_at ''pull'')
                              ''plain'' False empty_world))) [''.template_cache'', ''plain'']
   \<and> fst (get_template_path demo_registry cache_dir (git_failing_at ''init'') ''plain'' False
            empty_world)
       = Inl (TemplateError (''Git command failed: init'' @ [CHR 0x0A] @ ''Error: fatal''))
   \<and> exists (files (snd (get_template_path demo_registry cache_dir (git_failing_at ''init'')
                            ''plain'' False empty_world))) [''.template_cache'', ''plain'']
   \<and> exists (files (snd (get_template_path demo_registry cache_dir (git_failing_at ''remote'')
                            ''plain'' False empty_world))) [''.template_cache'', ''plain'']
   \<and> exists (files (snd (get_template_path demo_registry cache_dir (git_failing_at ''config'')
                            ''jeecg-demo-local'' False empty_world)))
              [''.template_cache'', ''jeecg-demo-local'']
   \<and> fst (get_template_path demo_registry cache_dir (git_serving demo_tree) ''plain'' False
            (snd (get_template_path demo_registry cache_dir (git_failing_at ''init'') ''plain''
                    False empty_world)))
       = Inr [''.template_cache'', ''plain'']
   \<and> git_log (snd (get_template_path demo_registry cache_dir (git_serving demo_tree) ''plain''
                      False
                      (snd (get_template_path demo_registry cache_dir (git_failing_at ''init'')
                              ''plain'' False empty_world))))
       = [([''init''], [''.template_cache'', ''plain''])]"
  by code_simp

text \<open>
  C5: for a registry entry whose \<open>sub_path\<close> is set (a non-empty string), a resolve that
  returns a path returns exactly the cache directory of the key joined with the
  sub-path, and that path exists on the disk the resolve leaves. When the fetch or
  update has succeeded and the sub-path does not exist, the resolve raises the
  \<open>TemplateError\<close> whose message names the sub-path and the key.
\<close>

theorem resolve_returns_existing_sub_path:
  assumes "R key = Some meta" and "meta_sub_path meta = Some sp" and "sp \<noteq> []"
  shows "(\<forall>p w'. get_template_path R cb G key force w = (Inr p, w')
            \<longrightarrow> p = path_join (path_join cb key) sp \<and> exists (files w') p)
       \<and> (\<forall>w'. meta_type meta = Some ''git''
              \<and> ensure_cached G (path_join cb key) meta force w = (Inr (), w')
              \<and> \<not> exists (files w') (path_join (path_join cb key) sp)
            \<longrightarrow> get_template_path R cb G key force w =
                  (Inl (TemplateError (''Sub-path '' @ quoted sp @ '' not found in repo for '' @ key)),
                   w'))"
  using assms
  by (auto simp: get_template_path_def and_then_def Let_def split: if_splits sum.splits prod.splits)

theorem resolve_returns_existing_sub_path_witness:
  "demo_registry ''jeecg-demo-local'' \<noteq> None
   \<and> fst (get_template_path demo_registry cache_dir (git_serving demo_tree) ''jeecg-demo-local''
            False empty_world)
       = Inr [''.template_cache'', ''jeecg-demo-local'', ''jeecg-module-demo'']
   \<and> exists (files (snd (get_template_path demo_registry cache_dir (git_serving demo_tree)
                            ''jeecg-demo-local'' False empty_world)))
        (path_join (path_join cache_dir ''jeecg-demo-local'') ''jeecg-module-demo'')
   \<and> fst (get_template_path demo_registry cache_dir (git_serving pom_tree) ''jeecg-demo-local''
            False empty_world)
       = Inl (TemplateError (''Sub-path '' @ quoted ''jeecg-module-demo''
                               @ '' not found in repo for jeecg-demo-local''))"
proof -
  let ?meta = "\<lparr>meta_type = Some ''git'',
         meta_repository = Some ''https://github.com/jeecgboot/jeecg-boot.git'',
         meta_branch = Some ''master'',
         meta_sub_path = Some ''jeecg-module-demo''\<rparr>"
  let ?good = "get_template_path demo_registry cache_dir (git_serving demo_tree)
                  ''jeecg-demo-local'' False empty_world"
  let ?bad = "get_template_path demo_registry cache_dir (git_serving pom_tree)
                  ''jeecg-demo-local'' False empty_world"
  let ?ens = "ensure_cached (git_serving pom_tree) (path_join cache_dir ''jeecg-demo-local'')
                   ?meta False empty_world"
  have r: "demo_registry ''jeecg-demo-local'' = Some ?meta"
    by (simp add: demo_registry_def)
  have s: "meta_sub_path ?meta = Some ''jeecg-module-demo''" "''jeecg-module-demo'' \<noteq> []"
    "meta_type ?meta = Some ''git''"
    by simp_all
  have ok: "fst ?good = Inr [''.template_cache'', ''jeecg-demo-local'', ''jeecg-module-demo'']"
    by code_simp
  note t1 = resolve_returns_existing_sub_path [of demo_registry "''jeecg-demo-local''" ?meta "''jeecg-module-demo''" cache_dir
                 "git_serving demo_tree" False empty_world, OF r s(1) s(2)]
  note t2 = resolve_returns_existing_sub_path [of demo_registry "''jeecg-demo-local''" ?meta "''jeecg-module-demo''" cache_dir
                 "git_serving pom_tree" False empty_world, OF r s(1) s(2)]
  have g: "?good = (Inr [''.template_cache'', ''jeecg-demo-local'', ''jeecg-module-demo''], snd ?good)"
    using ok by (cases ?good) simp
  have ex: "exists (files (snd ?good))
        (path_join (path_join cache_dir ''jeecg-demo-local'') ''jeecg-module-demo'')"
    using conjunct1 [OF t1, rule_format, OF g] by metis
  have e1: "fst ?ens = Inr ()"
    by code_simp
  have e2: "\<not> exists (files (snd ?ens))
               (path_join (path_join cache_dir ''jeecg-demo-local'') ''jeecg-module-demo'')"
    by code_simp
  have e: "?ens = (Inr (), snd ?ens)"
    using e1 by (cases ?ens) simp
  have bad: "fst ?bad
       = Inl (TemplateError (''Sub-path '' @ quoted ''jeecg-module-demo''
                               @ '' not found in repo for jeecg-demo-local''))"
    using conjunct2 [OF t2, rule_format, of "snd ?ens"] s(3) e e2 by simp
  from r ok ex bad show ?thesis by simp
qed

lemma update_log:
  "git_log (snd (update_git_repo G d meta w)) =
     git_log w @ ([''fetch'', ''--depth'', ''1'', ''origin'', branch_of meta], d)
       # (case G [''fetch'', ''--depth'', ''1'', ''origin'', branch_of meta] d (files w) of
            Exited0 out f \<Rightarrow> [([''reset'', ''--hard'', ''origin/'' @ branch_of meta], d)]
          | _ \<Rightarrow> [])"
  by (simp add: update_git_repo_def and_then_def run_git_def Let_def split: git_outcome.splits)

lemma pull_or_cleanup_log:
  "git_log (snd (pull_or_cleanup G d b w)) = git_log w @ [([''pull'', ''--depth'', ''1'', ''origin'', b], d)]"
  by (simp add: pull_or_cleanup_def run_git_def Let_def and_then_def on_files_def rmtree_def
           split: git_outcome.splits)

lemma and_then_runs:
  assumes "\<exists>ys. git_log (snd r) = git_log w @ ys \<and> prefix ys S1 \<and> (\<not> isl (fst r) \<longrightarrow> ys = S1)"
    and "\<And>v w1. \<exists>ys. git_log (snd (k v w1)) = git_log w1 @ ys \<and> prefix ys S2
                       \<and> (\<not> isl (fst (k v w1)) \<longrightarrow> ys = S2)"
  shows "\<exists>ys. git_log (snd (and_then r k)) = git_log w @ ys \<and> prefix ys (S1 @ S2)
              \<and> (\<not> isl (fst (and_then r k)) \<longrightarrow> ys = S1 @ S2)"
proof (cases r)
  case (Pair a w1)
  show ?thesis
  proof (cases a)
    case (Inl e)
    from assms(1) Pair obtain ys where "git_log w1 = git_log w @ ys" "prefix ys S1" by auto
    then have "git_log (snd (and_then r k)) = git_log w @ ys" "prefix ys (S1 @ S2)"
      "isl (fst (and_then r k))"
      using Pair Inl by (simp_all add: and_then_def prefix_prefix)
    then show ?thesis by blast
  next
    case (Inr v)
    from assms(1) Pair Inr have w1: "git_log w1 = git_log w @ S1" by auto
    from assms(2) [of v w1] obtain ys where
      ys: "git_log (snd (k v w1)) = git_log w1 @ ys" "prefix ys S2"
          "\<not> isl (fst (k v w1)) \<longrightarrow> ys = S2" by auto
    have "git_log (snd (and_then r k)) = git_log w @ (S1 @ ys)" "prefix (S1 @ ys) (S1 @ S2)"
      "\<not> isl (fst (and_then r k)) \<longrightarrow> S1 @ ys = S1 @ S2"
      using Pair Inr w1 ys by (simp_all add: and_then_def)
    then show ?thesis by blast
  qed
qed

lemma run_git_runs:
  "\<exists>ys. git_log (snd (run_git G a c w)) = git_log w @ ys \<and> prefix ys [(a, c)]
        \<and> (\<not> isl (fst (run_git G a c w)) \<longrightarrow> ys = [(a, c)])"
  by (simp add: run_git_log)

lemma on_files_runs:
  "\<exists>ys. git_log (snd (on_files r w)) = git_log w @ ys \<and> prefix ys []
        \<and> (\<not> isl (fst (on_files r w)) \<longrightarrow> ys = [])"
  by (simp add: on_files_log)

lemma pull_or_cleanup_runs:
  "\<exists>ys. git_log (snd (pull_or_cleanup G d b w)) = git_log w @ ys
        \<and> prefix ys [([''pull'', ''--depth'', ''1'', ''origin'', b], d)]
        \<and> (\<not> isl (fst (pull_or_cleanup G d b w))
             \<longrightarrow> ys = [([''pull'', ''--depth'', ''1'', ''origin'', b], d)])"
  by (simp add: pull_or_cleanup_log)

lemma sparse_setup_runs:
  "\<exists>ys. git_log (snd (case sub of
               None \<Rightarrow> (Inr (), w)
             | Some sub_path \<Rightarrow>
                 if sub_path = [] then (Inr (), w)
                 else and_then (run_git G [''config'', ''core.sparseCheckout'', ''true''] d w)
                        (\<lambda>_ w. on_files (write_text (files w) (sparse_info d)
                                            (sub_path @ [CHR 0x0A])) w))) = git_log w @ ys
        \<and> prefix ys (case sub of
          None \<Rightarrow> []
        | Some sub_path \<Rightarrow>
            if sub_path = [] then [] else [([''config'', ''core.sparseCheckout'', ''true''], d)])
        \<and> (\<not> isl (fst (case sub of
               None \<Rightarrow> (Inr (), w)
             | Some sub_path \<Rightarrow>
                 if sub_path = [] then (Inr (), w)
                 else and_then (run_git G [''config'', ''core.sparseCheckout'', ''true''] d w)
                        (\<lambda>_ w. on_files (write_text (files w) (sparse_info d)
                                            (sub_path @ [CHR 0x0A])) w)))
            \<longrightarrow> ys = (case sub of
          None \<Rightarrow> []
        | Some sub_path \<Rightarrow>
            if sub_path = [] then [] else [([''config'', ''core.sparseCheckout'', ''true''], d)]))"
proof (cases sub)
  case None
  then show ?thesis by simp
next
  case (Some sp)
  show ?thesis
  proof (cases "sp = []")
    case True
    with Some show ?thesis by simp
  next
    case False
    have "\<exists>ys. git_log (snd (and_then (run_git G [''config'', ''core.sparseCheckout'', ''true''] d w)
                        (\<lambda>_ w. on_files (write_text (files w) (sparse_info d)
                                            (sp @ [CHR 0x0A])) w))) = git_log w @ ys
        \<and> prefix ys ([([''config'', ''core.sparseCheckout'', ''true''], d)] @ [])
        \<and> (\<not> isl (fst (and_then (run_git G [''config'', ''core.sparseCheckout'', ''true''] d w)
                        (\<lambda>_ w. on_files (write_text (files w) (sparse_info d)
                                            (sp @ [CHR 0x0A])) w)))
            \<longrightarrow> ys = [([''config'', ''core.sparseCheckout'', ''true''], d)] @ [])"
      by (rule and_then_runs, rule run_git_runs, rule on_files_runs)
    then
    show ?thesis using Some False by simp
  qed
qed

lemma fetch_runs:
  assumes "meta_repository meta = Some repo_url"
  shows "\<exists>ys. git_log (snd (fetch_git_repo G d meta w)) = git_log w @ ys
              \<and> prefix ys (fresh_sequence d repo_url (branch_of meta) (meta_sub_path meta))
              \<and> (\<not> isl (fst (fetch_git_repo G d meta w))
                   \<longrightarrow> ys = fresh_sequence d repo_url (branch_of meta) (meta_sub_path meta))"
proof -
  have "\<exists>ys. git_log (snd (fetch_git_repo G d meta w)) = git_log w @ ys
              \<and> prefix ys ([] @ [([''init''], d)] @ [([''remote'', ''add'', ''origin'', repo_url], d)]
                   @ (case meta_sub_path meta of
                        None \<Rightarrow> []
                      | Some sub_path \<Rightarrow>
                          if sub_path = [] then []
                          else [([''config'', ''core.sparseCheckout'', ''true''], d)])
                   @ [([''pull'', ''--depth'', ''1'', ''origin'', branch_of meta], d)])
              \<and> (\<not> isl (fst (fetch_git_repo G d meta w))
                   \<longrightarrow> ys = [] @ [([''init''], d)] @ [([''remote'', ''add'', ''origin'', repo_url], d)]
                   @ (case meta_sub_path meta of
                        None \<Rightarrow> []
                      | Some sub_path \<Rightarrow>
                          if sub_path = [] then []
                          else [([''config'', ''core.sparseCheckout'', ''true''], d)])
                   @ [([''pull'', ''--depth'', ''1'', ''origin'', branch_of meta], d)])"
    unfolding fetch_git_repo_def assms option.case
    apply (rule and_then_runs)
     apply (rule on_files_runs)
    apply (rule and_then_runs)
     apply (rule run_git_runs)
    apply (rule and_then_runs)
     apply (rule run_git_runs)
    apply (rule and_then_runs)
     apply (rule sparse_setup_runs)
    apply (rule pull_or_cleanup_runs)
    done
  then show ?thesis by (simp add: fresh_sequence_def)
qed

lemma fetch_runs_init:
  assumes "meta_repository meta = Some repo_url" and "\<not> isl (mkdir (files w) d)"
  shows "git_log (snd (fetch_git_repo G d meta w)) \<noteq> git_log w"
proof -
  from assms(2) obtain f where f: "mkdir (files w) d = Inr f"
    by (cases "mkdir (files w) d") simp_all
  let ?w1 = "w\<lparr>files := f\<rparr>"
  let ?k = "\<lambda>(u::string) w.
          and_then (run_git G [''remote'', ''add'', ''origin'', repo_url] d w) (\<lambda>_ w.
          and_then
            (case meta_sub_path meta of
               None \<Rightarrow> (Inr (), w)
             | Some sub_path \<Rightarrow>
                 if sub_path = [] then (Inr (), w)
                 else and_then (run_git G [''config'', ''core.sparseCheckout'', ''true''] d w)
                        (\<lambda>_ w. on_files (write_text (files w) (sparse_info d)
                                            (sub_path @ [CHR 0x0A])) w))
            (\<lambda>_ w. pull_or_cleanup G d (branch_of meta) w))"
  have e: "fetch_git_repo G d meta w = and_then (run_git G [''init''] d ?w1) ?k"
    by (simp add: fetch_git_repo_def assms(1) f on_files_def and_then_def)
  have k: "\<And>v w1. \<exists>ys. git_log (snd (?k v w1)) = git_log w1 @ ys
              \<and> prefix ys ([([''remote'', ''add'', ''origin'', repo_url], d)]
                   @ (case meta_sub_path meta of
                        None \<Rightarrow> []
                      | Some sub_path \<Rightarrow>
                          if sub_path = [] then []
                          else [([''config'', ''core.sparseCheckout'', ''true''], d)])
                   @ [([''pull'', ''--depth'', ''1'', ''origin'', branch_of meta], d)])
              \<and> (\<not> isl (fst (?k v w1))
                   \<longrightarrow> ys = [([''remote'', ''add'', ''origin'', repo_url], d)]
                   @ (case meta_sub_path meta of
                        None \<Rightarrow> []
                      | Some sub_path \<Rightarrow>
                          if sub_path = [] then []
                          else [([''config'', ''core.sparseCheckout'', ''true''], d)])
                   @ [([''pull'', ''--depth'', ''1'', ''origin'', branch_of meta], d)])"
    apply (rule and_then_runs)
     apply (rule run_git_runs)
    apply (rule and_then_runs)
     apply (rule sparse_setup_runs)
    apply (rule pull_or_cleanup_runs)
    done
  obtain a w2 where r: "run_git G [''init''] d ?w1 = (a, w2)"
    by (cases "run_git G [''init''] d ?w1")
  have l: "git_log w2 = git_log w @ [([''init''], d)]"
    using run_git_log [of G "[''init'']" d ?w1] r by simp
  show ?thesis
  proof (cases a)
    case (Inl x)
    then show ?thesis using e r l by (simp add: and_then_def)
  next
    case (Inr v)
    from k obtain ys where "git_log (snd (?k v w2)) = git_log w2 @ ys" by blast
    then show ?thesis using e r l Inr by (simp add: and_then_def)
  qed
qed

lemma get_template_path_uncached_flag:
  assumes "\<not> exists (files w) (path_join cb key)"
  shows "get_template_path R cb G key True w = get_template_path R cb G key False w"
  using assms by (simp add: get_template_path_def ensure_cached_def Let_def split: option.splits)

lemma get_template_path_log:
  assumes "R key = Some meta" and "meta_type meta = Some ''git''"
  shows "git_log (snd (get_template_path R cb G key force w)) =
           git_log (snd (ensure_cached G (path_join cb key) meta force w))"
  using assms
  by (cases "ensure_cached G (path_join cb key) meta force w")
     (auto simp: get_template_path_def and_then_def Let_def split: sum.splits option.splits)

text \<open>
  C6, as stated, fails when no working copy is cached: with \<open>force_update\<close> set, the
  resolve of an uncached key succeeds after \<open>init\<close>, \<open>remote add\<close>, \<open>config\<close> and
  \<open>pull\<close>, and runs neither a \<open>fetch\<close> nor a \<open>reset\<close>.
\<close>

theorem force_refresh_uncached_counterexample:
  "\<not> exists (files empty_world) (path_join cache_dir ''jeecg-demo-local'')
   \<and> fst (get_template_path demo_registry cache_dir (git_serving demo_tree) ''jeecg-demo-local''
            True empty_world)
       = Inr [''.template_cache'', ''jeecg-demo-local'', ''jeecg-module-demo'']
   \<and> git_log (snd (get_template_path demo_registry cache_dir (git_serving demo_tree)
                      ''jeecg-demo-local'' True empty_world))
       = [([''init''], [''.template_cache'', ''jeecg-demo-local'']),
          ([''remote'', ''add'', ''origin'', ''https://github.com/jeecgboot/jeecg-boot.git''],
           [''.template_cache'', ''jeecg-demo-local'']),
          ([''config'', ''core.sparseCheckout'', ''true''],
           [''.template_cache'', ''jeecg-demo-local'']),
          ([''pull'', ''--depth'', ''1'', ''origin'', ''master''],
           [''.template_cache'', ''jeecg-demo-local''])]"
  by code_simp

text \<open>
  C6, amended: for a registry key of the git kind whose working copy is cached, a
  resolve with \<open>force_update\<close> runs exactly one shallow fetch of the tracked branch,
  followed, when that fetch succeeds, by exactly one hard reset to the remote tip of
  the branch, and no other git command. When no working copy is cached, the flag
  changes nothing: the resolve is the one without \<open>force_update\<close>, the fresh fetch. Its
  commands are \<open>init\<close>, \<open>remote add\<close>, \<open>config\<close> when a sub-path is set, and \<open>pull\<close>, in
  this order and up to the first step that raises: none when the entry names no
  repository, at least \<open>init\<close> once the directory has been made, and all of them when
  the fetch succeeds. Neither a \<open>fetch\<close> nor a \<open>reset\<close> is among them.
\<close>

theorem force_refresh_cached_fetch_reset:
  assumes "R key = Some meta" and "meta_type meta = Some ''git''"
  shows "(exists (files w) (path_join cb key) \<longrightarrow>
            git_log (snd (get_template_path R cb G key True w)) =
              git_log w
              @ ([''fetch'', ''--depth'', ''1'', ''origin'', branch_of meta], path_join cb key)
              # (case G [''fetch'', ''--depth'', ''1'', ''origin'', branch_of meta]
                        (path_join cb key) (files w) of
                   Exited0 out f \<Rightarrow>
                     [([''reset'', ''--hard'', ''origin/'' @ branch_of meta], path_join cb key)]
                 | _ \<Rightarrow> []))
       \<and> (\<not> exists (files w) (path_join cb key) \<longrightarrow>
            get_template_path R cb G key True w = get_template_path R cb G key False w
            \<and> (\<exists>xs. git_log (snd (get_template_path R cb G key True w)) = git_log w @ xs
                  \<and> (case meta_repository meta of
                        None \<Rightarrow> xs = []
                      | Some repo_url \<Rightarrow>
                          prefix xs (fresh_sequence (path_join cb key) repo_url (branch_of meta)
                                       (meta_sub_path meta))
                          \<and> (\<not> isl (mkdir (files w) (path_join cb key)) \<longrightarrow> xs \<noteq> [])
                          \<and> (\<not> isl (fst (ensure_cached G (path_join cb key) meta True w))
                               \<longrightarrow> xs = fresh_sequence (path_join cb key) repo_url
                                            (branch_of meta) (meta_sub_path meta)))))"
proof (intro conjI impI)
  note lg = get_template_path_log [of R key meta, OF assms]
  assume "exists (files w) (path_join cb key)"
  then show "git_log (snd (get_template_path R cb G key True w)) =
              git_log w
              @ ([''fetch'', ''--depth'', ''1'', ''origin'', branch_of meta], path_join cb key)
              # (case G [''fetch'', ''--depth'', ''1'', ''origin'', branch_of meta]
                        (path_join cb key) (files w) of
                   Exited0 out f \<Rightarrow>
                     [([''reset'', ''--hard'', ''origin/'' @ branch_of meta], path_join cb key)]
                 | _ \<Rightarrow> [])"
    by (simp add: lg ensure_cached_def update_log)
next
  assume "\<not> exists (files w) (path_join cb key)"
  then show "get_template_path R cb G key True w = get_template_path R cb G key False w"
    by (rule get_template_path_uncached_flag)
next
  note lg = get_template_path_log [of R key meta, OF assms]
  assume n: "\<not> exists (files w) (path_join cb key)"
  then have ec: "ensure_cached G (path_join cb key) meta True w
                  = fetch_git_repo G (path_join cb key) meta w"
    by (simp add: ensure_cached_def)
  show "\<exists>xs. git_log (snd (get_template_path R cb G key True w)) = git_log w @ xs
                  \<and> (case meta_repository meta of
                        None \<Rightarrow> xs = []
                      | Some repo_url \<Rightarrow>
                          prefix xs (fresh_sequence (path_join cb key) repo_url (branch_of meta)
                                       (meta_sub_path meta))
                          \<and> (\<not> isl (mkdir (files w) (path_join cb key)) \<longrightarrow> xs \<noteq> [])
                          \<and> (\<not> isl (fst (ensure_cached G (path_join cb key) meta True w))
                               \<longrightarrow> xs = fresh_sequence (path_join cb key) repo_url
                                            (branch_of meta) (meta_sub_path meta)))"
  proof (cases "meta_repository meta")
    case None
    then show ?thesis
      by (simp add: lg ec fetch_git_repo_def)
  next
    case (Some repo_url)
    from fetch_runs [OF Some, of G "path_join cb key" w] obtain ys where
      ys: "git_log (snd (fetch_git_repo G (path_join cb key) meta w)) = git_log w @ ys"
          "prefix ys (fresh_sequence (path_join cb key) repo_url (branch_of meta)
                        (meta_sub_path meta))"
          "\<not> isl (fst (fetch_git_repo G (path_join cb key) meta w))
             \<longrightarrow> ys = fresh_sequence (path_join cb key) repo_url (branch_of meta)
                          (meta_sub_path meta)"
      by blast
    have ne: "\<not> isl (mkdir (files w) (path_join cb key)) \<longrightarrow> ys \<noteq> []"
      using fetch_runs_init [OF Some, of w "path_join cb key" G] ys(1) by auto
    from ys ne show ?thesis
      by (simp add: lg ec Some)
  qed
qed

theorem force_refresh_cached_fetch_reset_witness:
  "exists (files cached_world) (path_join cache_dir ''jeecg-demo-local'')
   \<and> git_log (snd (get_template_path demo_registry cache_dir (git_serving demo_tree)
                      ''jeecg-demo-local'' True cached_world))
       = git_log cached_world
         @ [([''fetch'', ''--depth'', ''1'', ''origin'', ''master''],
             [''.template_cache'', ''jeecg-demo-local'']),
            ([''reset'', ''--hard'', ''origin/master''],
             [''.template_cache'', ''jeecg-demo-local''])]
   \<and> \<not> exists (files empty_world) (path_join cache_dir ''jeecg-demo-local'')
   \<and> \<not> isl (mkdir (files empty_world) (path_join cache_dir ''jeecg-demo-local''))
   \<and> get_template_path demo_registry cache_dir (git_serving demo_tree)
         ''jeecg-demo-local'' True empty_world
       = get_template_path demo_registry cache_dir (git_serving demo_tree)
           ''jeecg-demo-local'' False empty_world
   \<and> git_log (snd (get_template_path demo_registry cache_dir (git_serving demo_tree)
                      ''jeecg-demo-local'' True empty_world))
       = [([''init''], [''.template_cache'', ''jeecg-demo-local'']),
          ([''remote'', ''add'', ''origin'', ''https://github.com/jeecgboot/jeecg-boot.git''],
           [''.template_cache'', ''jeecg-demo-local'']),
          ([''config'', ''core.sparseCheckout'', ''true''],
           [''.template_cache'', ''jeecg-demo-local'']),
          ([''pull'', ''--depth'', ''1'', ''origin'', ''master''],
           [''.template_cache'', ''jeecg-demo-local''])]"
proof -
  let ?meta = "\<lparr>meta_type = Some ''git'',
         meta_repository = Some ''https://github.com/jeecgboot/jeecg-boot.git'',
         meta_branch = Some ''master'',
         meta_sub_path = Some ''jeecg-module-demo''\<rparr>"
  let ?cold = "get_template_path demo_registry cache_dir (git_serving demo_tree)
                 ''jeecg-demo-local'' True empty_world"
  have r: "demo_registry ''jeecg-demo-local'' = Some ?meta"
    by (simp add: demo_registry_def)
  have t: "meta_type ?meta = Some ''git''"
    by simp
  have b: "branch_of ?meta = ''master''"
    by (simp add: branch_of_def)
  have p: "path_join cache_dir ''jeecg-demo-local'' = [''.template_cache'', ''jeecg-demo-local'']"
    by code_simp
  have c: "exists (files cached_world) (path_join cache_dir ''jeecg-demo-local'')"
    by code_simp
  have n: "\<not> exists (files empty_world) (path_join cache_dir ''jeecg-demo-local'')"
    by code_simp
  have m: "\<not> isl (mkdir (files empty_world) (path_join cache_dir ''jeecg-demo-local''))"
    by code_simp
  have e: "\<not> isl (fst (ensure_cached (git_serving demo_tree)
                         (path_join cache_dir ''jeecg-demo-local'') ?meta True empty_world))"
    by code_simp
  have g: "git_serving demo_tree [''fetch'', ''--depth'', ''1'', ''origin'', ''master'']
             [''.template_cache'', ''jeecg-demo-local''] (files cached_world)
           = Exited0 [] (files cached_world)"
    by (simp add: git_serving_def)
  note t1 = force_refresh_cached_fetch_reset [of demo_registry "''jeecg-demo-local''" ?meta cached_world cache_dir
                  "git_serving demo_tree", OF r t]
  note t2 = force_refresh_cached_fetch_reset [of demo_registry "''jeecg-demo-local''" ?meta empty_world cache_dir
                  "git_serving demo_tree", OF r t]
  have u: "git_log (snd (get_template_path demo_registry cache_dir (git_serving demo_tree)
                      ''jeecg-demo-local'' True cached_world))
       = git_log cached_world
         @ [([''fetch'', ''--depth'', ''1'', ''origin'', ''master''],
             [''.template_cache'', ''jeecg-demo-local'']),
            ([''reset'', ''--hard'', ''origin/master''],
             [''.template_cache'', ''jeecg-demo-local''])]"
    using conjunct1 [OF t1] c by (simp add: b p g)
  from conjunct2 [OF t2] n have
    f1: "?cold = get_template_path demo_registry cache_dir (git_serving demo_tree)
                   ''jeecg-demo-local'' False empty_world"
    and f2: "\<exists>xs. git_log (snd ?cold) = git_log empty_world @ xs
               \<and> (\<not> isl (fst (ensure_cached (git_serving demo_tree)
                                  (path_join cache_dir ''jeecg-demo-local'') ?meta True
                                  empty_world))
                    \<longrightarrow> xs = fresh_sequence (path_join cache_dir ''jeecg-demo-local'')
                                 ''https://github.com/jeecgboot/jeecg-boot.git''
                                 (branch_of ?meta) (meta_sub_path ?meta))"
    by auto
  from f2 e have f3: "git_log (snd ?cold) = git_log empty_world
          @ fresh_sequence (path_join cache_dir ''jeecg-demo-local'')
              ''https://github.com/jeecgboot/jeecg-boot.git'' (branch_of ?meta)
              (meta_sub_path ?meta)"
    by blast
  have f4: "git_log (snd ?cold)
       = [([''init''], [''.template_cache'', ''jeecg-demo-local'']),
          ([''remote'', ''add'', ''origin'', ''https://github.com/jeecgboot/jeecg-boot.git''],
           [''.template_cache'', ''jeecg-demo-local'']),
          ([''config'', ''core.sparseCheckout'', ''true''],
           [''.template_cache'', ''jeecg-demo-local'']),
          ([''pull'', ''--depth'', ''1'', ''origin'', ''master''],
           [''.template_cache'', ''jeecg-demo-local''])]"
    unfolding f3 by (simp add: fresh_sequence_def b p empty_world_def)
  from c u n m f1 f4 show ?thesis by blast
qed

section \<open>The adjudicator: properties\<close>

lemma promote_mset: "i < length cs \<Longrightarrow> mset (fst (promote a i cs h)) = mset cs"
proof -
  assume "i < length cs"
  then have "cs = take i cs @ cs ! i # drop (Suc i) cs" by (rule id_take_nth_drop)
  then have "mset cs = mset (cs ! i # take i cs @ drop (Suc i) cs)"
    by (metis mset.simps(2) mset_append union_mset_add_mset_right)
  then show ?thesis by (simp add: promote_def Let_def)
qed

lemma checked_index_Some: "checked_index idx n = Inr (Some i) \<Longrightarrow> i < n"
  by (auto simp: checked_index_def Let_def split: json.splits if_splits)

lemma apply_decision_cases:
  "apply_decision loads repr body cs h = Inr r \<Longrightarrow>
     r = (cs, h) \<or> (\<exists>i a. i < length cs \<and> r = promote a i cs h)"
  by (auto simp: apply_decision_def split: option.splits sum.splits dest: checked_index_Some)

lemma evaluate_cases:
  "evaluate_candidates_with_ai getenv post loads repr cs req h = (cs, h)
   \<or> (\<exists>i a. i < length cs \<and> evaluate_candidates_with_ai getenv post loads repr cs req h = promote a i cs h)"
  by (auto simp: evaluate_candidates_with_ai_def split: option.splits http_result.splits sum.splits
           dest: apply_decision_cases)

lemma evaluate_no_key:
  "getenv ''GEMINI_API_KEY'' = None \<or> getenv ''GEMINI_API_KEY'' = Some []
   \<Longrightarrow> evaluate_candidates_with_ai getenv post loads repr cs req h = (cs, h)"
  by (auto simp: evaluate_candidates_with_ai_def)

lemma evaluate_empty:
  "evaluate_candidates_with_ai getenv post loads repr [] req h = ([], h)"
  using evaluate_cases [of getenv post loads repr "[]" req h] by simp

lemma evaluate_decided:
  assumes "getenv ''GEMINI_API_KEY'' = Some api_key" and "api_key \<noteq> []"
    and "post (build_request getenv api_key (map h cs) req) = Response 200 (Some data)"
    and "message_content data = Inr (JStr t)"
    and "loads (strip (replace ''```'' [] (replace ''```json'' [] t))) = Some (JDict d)"
  shows "evaluate_candidates_with_ai getenv post loads repr cs req h =
           (case checked_index (case map_of d ''selected_index'' of None \<Rightarrow> JNull | Some x \<Rightarrow> x)
                   (length cs) of
              Inl e \<Rightarrow> (cs, h)
            | Inr None \<Rightarrow> (cs, h)
            | Inr (Some i) \<Rightarrow>
                promote (format_value repr
                           (case map_of d ''reasoning'' of
                              None \<Rightarrow> JStr ''No reason provided.'' | Some x \<Rightarrow> x))
                  i cs h)"
  using assms
  by (simp add: evaluate_candidates_with_ai_def apply_decision_def clean_text_def dict_get_def
        dict_get_or_def split: sum.splits option.splits)

text \<open>
  C1: when the credential is set and the reasoning service answers 200 with a decision
  that selects an index of the list and gives a reasoning string, the adjudicator
  returns the selected candidate followed by the others in their former order; the
  selected candidate has 10 added to its score and the bracketed tag with the
  reasoning put in front of its rationale, which is kept. The instance below is the list
  \<open>[A(80), B(60), C(40)]\<close> with index 2 selected: the result is \<open>[C, A, B]\<close> and the
  score of \<open>C\<close> is 50.
\<close>

theorem adjudication_promotes_selected:
  assumes "getenv ''GEMINI_API_KEY'' = Some api_key" and "api_key \<noteq> []"
    and "post (build_request getenv api_key (map h candidates) requirement)
           = Response 200 (Some data)"
    and "message_content data = Inr (JStr t)"
    and "loads (strip (replace ''```'' [] (replace ''```json'' [] t))) = Some (JDict d)"
    and "map_of d ''selected_index'' = Some (JInt (int idx))"
    and "idx < length candidates"
    and "map_of d ''reasoning'' = Some (JStr ai_reason)"
  shows "evaluate_candidates_with_ai getenv post loads repr candidates requirement h =
           (candidates ! idx # take idx candidates @ drop (Suc idx) candidates,
            h(candidates ! idx :=
                (h (candidates ! idx))
                  \<lparr>match_score := match_score (h (candidates ! idx)) + 10,
                   analysis_reason :=
                     ''[AI SELECTED: '' @ ai_reason @ ''] ''
                     @ analysis_reason (h (candidates ! idx))\<rparr>))"
  using assms(6-8)
  by (simp add: evaluate_decided [of getenv api_key post h candidates requirement data t loads d
                                     repr, OF assms(1-5)]
        checked_index_def promote_def Let_def format_value_def)

text \<open>
  C2: the adjudicator returns the list and the candidates as they were when the list
  is empty, when the credential is absent or empty, when the service answers with a
  status other than 200, and when the decision has no \<open>selected_index\<close> (or \<open>null\<close>)
  or an integer index below 0 or not below the length of the list.
\<close>

theorem adjudication_noop_cases:
  "evaluate_candidates_with_ai getenv post loads repr [] requirement h = ([], h)
   \<and> (getenv ''GEMINI_API_KEY'' = None \<or> getenv ''GEMINI_API_KEY'' = Some []
        \<longrightarrow> evaluate_candidates_with_ai getenv post loads repr candidates requirement h
              = (candidates, h))
   \<and> (\<forall>api_key status_code body.
          getenv ''GEMINI_API_KEY'' = Some api_key
          \<and> post (build_request getenv api_key (map h candidates) requirement)
              = Response status_code body
          \<and> status_code \<noteq> 200
        \<longrightarrow> evaluate_candidates_with_ai getenv post loads repr candidates requirement h
              = (candidates, h))
   \<and> (\<forall>api_key data t d.
          getenv ''GEMINI_API_KEY'' = Some api_key
          \<and> post (build_request getenv api_key (map h candidates) requirement)
              = Response 200 (Some data)
          \<and> message_content data = Inr (JStr t)
          \<and> loads (strip (replace ''```'' [] (replace ''```json'' [] t))) = Some (JDict d)
          \<and> (map_of d ''selected_index'' = None
               \<or> map_of d ''selected_index'' = Some JNull
               \<or> (\<exists>i. map_of d ''selected_index'' = Some (JInt i)
                       \<and> (i < 0 \<or> int (length candidates) \<le> i)))
        \<longrightarrow> evaluate_candidates_with_ai getenv post loads repr candidates requirement h
              = (candidates, h))"
proof (intro conjI allI impI)
  show "evaluate_candidates_with_ai getenv post loads repr [] requirement h = ([], h)"
    by (rule evaluate_empty)
next
  assume "getenv ''GEMINI_API_KEY'' = None \<or> getenv ''GEMINI_API_KEY'' = Some []"
  then show "evaluate_candidates_with_ai getenv post loads repr candidates requirement h
              = (candidates, h)"
    by (rule evaluate_no_key)
next
  fix api_key status_code body
  assume "getenv ''GEMINI_API_KEY'' = Some api_key
          \<and> post (build_request getenv api_key (map h candidates) requirement)
              = Response status_code body
          \<and> status_code \<noteq> 200"
  then show "evaluate_candidates_with_ai getenv post loads repr candidates requirement h
              = (candidates, h)"
    by (simp add: evaluate_candidates_with_ai_def)
next
  fix api_key data t d
  assume a: "getenv ''GEMINI_API_KEY'' = Some api_key
          \<and> post (build_request getenv api_key (map h candidates) requirement)
              = Response 200 (Some data)
          \<and> message_content data = Inr (JStr t)
          \<and> loads (strip (replace ''```'' [] (replace ''```json'' [] t))) = Some (JDict d)
          \<and> (map_of d ''selected_index'' = None
               \<or> map_of d ''selected_index'' = Some JNull
               \<or> (\<exists>i. map_of d ''selected_index'' = Some (JInt i)
                       \<and> (i < 0 \<or> int (length candidates) \<le> i)))"
  show "evaluate_candidates_with_ai getenv post loads repr candidates requirement h
              = (candidates, h)"
  proof (cases "api_key = []")
    case True
    with a show ?thesis by (simp add: evaluate_no_key)
  next
    case False
    from a have b: "getenv ''GEMINI_API_KEY'' = Some api_key"
      "post (build_request getenv api_key (map h candidates) requirement)
              = Response 200 (Some data)"
      "message_content data = Inr (JStr t)"
      "loads (strip (replace ''```'' [] (replace ''```json'' [] t))) = Some (JDict d)"
      by simp_all
    from a have c: "map_of d ''selected_index'' = None
               \<or> map_of d ''selected_index'' = Some JNull
               \<or> (\<exists>i. map_of d ''selected_index'' = Some (JInt i)
                       \<and> (i < 0 \<or> int (length candidates) \<le> i))"
      by simp
    then show ?thesis
      by (auto simp: evaluate_decided [of getenv api_key post h candidates requirement data t
                                          loads d repr, OF b(1) False b(2) b(3) b(4)]
            checked_index_def)
  qed
qed

text \<open>
  C10: on every path the list the adjudicator returns holds the same references as
  its input, each as often as before (so it has the same length); at most one
  candidate object is changed, and of no candidate the name, the URL, the description
  or the stars change.
\<close>

theorem adjudication_preserves_candidates:
  "mset (fst (evaluate_candidates_with_ai getenv post loads repr candidates requirement h))
     = mset candidates
   \<and> length (fst (evaluate_candidates_with_ai getenv post loads repr candidates requirement h))
     = length candidates
   \<and> (snd (evaluate_candidates_with_ai getenv post loads repr candidates requirement h) r \<noteq> h r
        \<and> snd (evaluate_candidates_with_ai getenv post loads repr candidates requirement h) r'
            \<noteq> h r'
       \<longrightarrow> r = r')
   \<and> name (snd (evaluate_candidates_with_ai getenv post loads repr candidates requirement h) r)
       = name (h r)
   \<and> url (snd (evaluate_candidates_with_ai getenv post loads repr candidates requirement h) r)
       = url (h r)
   \<and> description
        (snd (evaluate_candidates_with_ai getenv post loads repr candidates requirement h) r)
       = description (h r)
   \<and> stars (snd (evaluate_candidates_with_ai getenv post loads repr candidates requirement h) r)
       = stars (h r)"
proof -
  let ?r = "evaluate_candidates_with_ai getenv post loads repr candidates requirement h"
  from evaluate_cases [of getenv post loads repr candidates requirement h]
  show ?thesis
  proof
    assume "?r = (candidates, h)"
    then show ?thesis by simp
  next
    assume "\<exists>i a. i < length candidates \<and> ?r = promote a i candidates h"
    then obtain i a where i: "i < length candidates" and r: "?r = promote a i candidates h"
      by blast
    have m: "mset (fst ?r) = mset candidates"
      using i r by (simp add: promote_mset)
    then have l: "length (fst ?r) = length candidates"
      by (metis size_mset)
    have s: "\<And>x. x \<noteq> candidates ! i \<Longrightarrow> snd ?r x = h x"
      by (simp add: r promote_def Let_def)
    have o: "snd ?r r \<noteq> h r \<and> snd ?r r' \<noteq> h r' \<longrightarrow> r = r'"
      using s [of r] s [of r'] by blast
    have f: "name (snd ?r r) = name (h r)" "url (snd ?r r) = url (h r)"
      "description (snd ?r r) = description (h r)" "stars (snd ?r r) = stars (h r)"
      by (simp_all add: r promote_def Let_def)
    from m l o f show ?thesis by blast
  qed
qed


theorem adjudication_promotes_selected_witness:
  "match_score (abc_store 0) = 80 \<and> match_score (abc_store 1) = 60
   \<and> match_score (abc_store 2) = 40
   \<and> fst (evaluate_candidates_with_ai key_env (service_selecting 2) loads_decision no_repr
            [0, 1, 2] ''payment module'' abc_store) = [2, 0, 1]
   \<and> snd (evaluate_candidates_with_ai key_env (service_selecting 2) loads_decision no_repr
            [0, 1, 2] ''payment module'' abc_store) 2
       = \<lparr>name = ''C'', url = ''https://example.org/c.git'', description = ''third'',
          stars = 1, match_score = 50,
          analysis_reason = ''[AI SELECTED: Best fit] Basic match.''\<rparr>
   \<and> snd (evaluate_candidates_with_ai key_env (service_selecting 2) loads_decision no_repr
            [0, 1, 2] ''payment module'' abc_store) 0 = abc_store 0
   \<and> snd (evaluate_candidates_with_ai key_env (service_selecting 2) loads_decision no_repr
            [0, 1, 2] ''payment module'' abc_store) 1 = abc_store 1"
proof -
  let ?d = "[(''selected_index'', JInt 2), (''reasoning'', JStr ''Best fit'')]"
  have k: "key_env ''GEMINI_API_KEY'' = Some ''secret''" "''secret'' \<noteq> []"
    by (simp_all add: key_env_def)
  have p: "service_selecting 2
             (build_request key_env ''secret'' (map abc_store [0, 1, 2]) ''payment module'')
           = Response 200 (Some (chat_body (fenced (decision_text 2))))"
    by (simp add: service_selecting_def)
  have m: "message_content (chat_body (fenced (decision_text 2)))
           = Inr (JStr (fenced (decision_text 2)))"
    by (simp add: chat_body_def message_content_def getitem_def getitem0_def)
  have c: "strip (replace ''```'' [] (replace ''```json'' [] (fenced (decision_text 2))))
           = decision_text 2"
    by code_simp
  have l: "loads_decision (strip (replace ''```'' [] (replace ''```json'' []
             (fenced (decision_text 2))))) = Some (JDict ?d)"
    by (simp add: c loads_decision_def)
  have i: "map_of ?d ''selected_index'' = Some (JInt (int 2))" "(2::nat) < length [0::nat, 1, 2]"
    "map_of ?d ''reasoning'' = Some (JStr ''Best fit'')"
    by simp_all
  from adjudication_promotes_selected
         [of key_env "''secret''" "service_selecting 2" abc_store "[0, 1, 2]"
             "''payment module''" "chat_body (fenced (decision_text 2))"
             "fenced (decision_text 2)" loads_decision ?d 2 "''Best fit''" no_repr,
          OF k p m l i]
  show ?thesis by (simp add: abc_store_def)
qed

theorem adjudication_noop_cases_witness:
  "evaluate_candidates_with_ai key_env (service_selecting 2) loads_decision no_repr
     [] ''payment module'' abc_store = ([], abc_store)
   \<and> no_key_env ''GEMINI_API_KEY'' = None
   \<and> evaluate_candidates_with_ai no_key_env (service_selecting 2) loads_decision no_repr
       [0, 1, 2] ''payment module'' abc_store = ([0, 1, 2], abc_store)
   \<and> evaluate_candidates_with_ai key_env (service_status 500) loads_decision no_repr
       [0, 1, 2] ''payment module'' abc_store = ([0, 1, 2], abc_store)
   \<and> evaluate_candidates_with_ai key_env (service_selecting 5) loads_decision no_repr
       [0, 1, 2] ''payment module'' abc_store = ([0, 1, 2], abc_store)"
proof -
  let ?d = "[(''selected_index'', JInt 5), (''reasoning'', JStr ''Best fit'')]"
  have k: "key_env ''GEMINI_API_KEY'' = Some ''secret''"
    by (simp add: key_env_def)
  have n: "no_key_env ''GEMINI_API_KEY'' = None"
    by (simp add: no_key_env_def)
  have s: "service_status 500
             (build_request key_env ''secret'' (map abc_store [0, 1, 2]) ''payment module'')
           = Response 500 None" "(500::int) \<noteq> 200"
    by (simp_all add: service_status_def)
  have p: "service_selecting 5
             (build_request key_env ''secret'' (map abc_store [0, 1, 2]) ''payment module'')
           = Response 200 (Some (chat_body (fenced (decision_text 5))))"
    by (simp add: service_selecting_def)
  have m: "message_content (chat_body (fenced (decision_text 5)))
           = Inr (JStr (fenced (decision_text 5)))"
    by (simp add: chat_body_def message_content_def getitem_def getitem0_def)
  have c: "strip (replace ''```'' [] (replace ''```json'' [] (fenced (decision_text 5))))
           = decision_text 5"
    by code_simp
  have c': "decision_text 5 \<noteq> decision_text 2"
    by code_simp
  have l: "loads_decision (strip (replace ''```'' [] (replace ''```json'' []
             (fenced (decision_text 5))))) = Some (JDict ?d)"
    by (simp add: c c' loads_decision_def)
  have i: "\<exists>i. map_of ?d ''selected_index'' = Some (JInt i)
               \<and> (i < 0 \<or> int (length [0::nat, 1, 2]) \<le> i)"
    by simp
  note t1 = adjudication_noop_cases
         [of key_env "service_selecting 2" loads_decision no_repr "''payment module''"
             abc_store "[0, 1, 2]"]
  note t2 = adjudication_noop_cases
         [of no_key_env "service_selecting 2" loads_decision no_repr "''payment module''"
             abc_store "[0, 1, 2]"]
  note t3 = adjudication_noop_cases
         [of key_env "service_status 500" loads_decision no_repr "''payment module''"
             abc_store "[0, 1, 2]"]
  note t4 = adjudication_noop_cases
         [of key_env "service_selecting 5" loads_decision no_repr "''payment module''"
             abc_store "[0, 1, 2]"]
  have a1: "evaluate_candidates_with_ai key_env (service_selecting 2) loads_decision no_repr
     [] ''payment module'' abc_store = ([], abc_store)"
    using t1 by blast
  have a2: "evaluate_candidates_with_ai no_key_env (service_selecting 2) loads_decision no_repr
       [0, 1, 2] ''payment module'' abc_store = ([0, 1, 2], abc_store)"
    using t2 n by blast
  have a3: "evaluate_candidates_with_ai key_env (service_status 500) loads_decision no_repr
       [0, 1, 2] ''payment module'' abc_store = ([0, 1, 2], abc_store)"
    using t3 k s by blast
  have a4: "evaluate_candidates_with_ai key_env (service_selecting 5) loads_decision no_repr
       [0, 1, 2] ''payment module'' abc_store = ([0, 1, 2], abc_store)"
    using t4 k p m l i by blast
  from a1 n a2 a3 a4 show ?thesis by blast
qed

theorem adjudication_preserves_candidates_witness:
  "mset (fst (evaluate_candidates_with_ai key_env (service_selecting 2) loads_decision no_repr
                [0, 1, 2] ''payment module'' abc_store)) = mset [0, 1, 2]
   \<and> snd (evaluate_candidates_with_ai key_env (service_selecting 2) loads_decision no_repr
            [0, 1, 2] ''payment module'' abc_store) 2 \<noteq> abc_store 2
   \<and> snd (evaluate_candidates_with_ai key_env (service_selecting 2) loads_decision no_repr
            [0, 1, 2] ''payment module'' abc_store) 0 = abc_store 0
   \<and> name (snd (evaluate_candidates_with_ai key_env (service_selecting 2) loads_decision no_repr
                  [0, 1, 2] ''payment module'' abc_store) 2) = ''C''"
proof -
  let ?r = "evaluate_candidates_with_ai key_env (service_selecting 2) loads_decision no_repr
                [0, 1, 2] ''payment module'' abc_store"
  have a: "match_score (snd ?r 2) = 50"
    by code_simp
  have b: "match_score (abc_store 2) = 40" "name (abc_store 2) = ''C''"
    by (simp_all add: abc_store_def)
  have c: "snd ?r 2 \<noteq> abc_store 2"
    using a b by auto
  note t = adjudication_preserves_candidates
         [of key_env "service_selecting 2" loads_decision no_repr "[0, 1, 2]"
             "''payment module''" abc_store]
  have d: "snd ?r 0 = abc_store 0"
    using t [of 0 2] c by auto
  from t [of 2 2] b c d show ?thesis by simp
qed

section \<open>Discovery: properties\<close>

lemma search_failed:
  "get (q @ '' language:java'') = Raised \<Longrightarrow> search_github_real get validate q = []"
  by (simp add: search_github_real_def)

lemma search_status:
  "get (q @ '' language:java'') = Response status_code body \<Longrightarrow> status_code \<noteq> 200
   \<Longrightarrow> search_github_real get validate q = []"
  by (simp add: search_github_real_def)

lemma search_no_items:
  "get (q @ '' language:java'') = Response 200 (Some (JDict d))
   \<Longrightarrow> map_of d ''items'' = None \<or> map_of d ''items'' = Some (JList [])
   \<Longrightarrow> search_github_real get validate q = []"
  by (auto simp: search_github_real_def dict_get_or_def candidates_of_def)

text \<open>
  C3: the built-in fallback set is the same three candidates for every requirement
  (\<open>jeecg-boot-module-demo\<close>, \<open>jeepay-payment-system\<close>, \<open>stripe-java-sdk\<close>, unscored).
  When the search request raises, when the index answers with a status other than
  200, and when it answers 200 with no \<open>items\<close> or an empty \<open>items\<close> list, discovery
  returns exactly these three. In every case discovery returns either exactly these
  three or exactly the non-empty result of the search, never a mixture.
\<close>

theorem discover_falls_back_to_builtin:
  "(let builtin =
          [\<lparr>name = ''jeecg-boot-module-demo'',
            url = ''https://github.com/jeecgboot/jeecg-boot.git'',
            description = ''Official JeecgBoot demo module. Contains standard CRUD patterns.'',
            stars = 3500, match_score = 0, analysis_reason = []\<rparr>,
           \<lparr>name = ''jeepay-payment-system'',
            url = ''https://github.com/jeequan/jeepay.git'',
            description = ''Open source payment system. High complexity, standalone app.'',
            stars = 1200, match_score = 0, analysis_reason = []\<rparr>,
           \<lparr>name = ''stripe-java-sdk'',
            url = ''https://github.com/stripe/stripe-java.git'',
            description = ''Official Stripe SDK. Low level library, not a module.'',
            stars = 5000, match_score = 0, analysis_reason = []\<rparr>]
    in mock_search_github requirement = builtin
       \<and> (get (requirement @ '' language:java'') = Raised
            \<longrightarrow> discover get validate requirement = builtin)
       \<and> (\<forall>status_code body.
             get (requirement @ '' language:java'') = Response status_code body
             \<and> status_code \<noteq> 200
           \<longrightarrow> discover get validate requirement = builtin)
       \<and> (\<forall>d. get (requirement @ '' language:java'') = Response 200 (Some (JDict d))
                \<and> (map_of d ''items'' = None \<or> map_of d ''items'' = Some (JList []))
           \<longrightarrow> discover get validate requirement = builtin)
       \<and> (discover get validate requirement = builtin
            \<or> (discover get validate requirement = search_github_real get validate requirement
                \<and> search_github_real get validate requirement \<noteq> [])))"
proof -
  have d: "discover get validate requirement =
             (if search_github_real get validate requirement = []
              then mock_search_github requirement
              else search_github_real get validate requirement)"
    by (simp add: discover_def Let_def)
  show ?thesis
    unfolding Let_def d
    by (auto simp: mock_search_github_def search_failed search_status search_no_items)
qed

theorem discover_falls_back_to_builtin_witness:
  "discover index_down strict_validate ''payment''
     = [\<lparr>name = ''jeecg-boot-module-demo'',
         url = ''https://github.com/jeecgboot/jeecg-boot.git'',
         description = ''Official JeecgBoot demo module. Contains standard CRUD patterns.'',
         stars = 3500, match_score = 0, analysis_reason = []\<rparr>,
        \<lparr>name = ''jeepay-payment-system'',
         url = ''https://github.com/jeequan/jeepay.git'',
         description = ''Open source payment system. High complexity, standalone app.'',
         stars = 1200, match_score = 0, analysis_reason = []\<rparr>,
        \<lparr>name = ''stripe-java-sdk'',
         url = ''https://github.com/stripe/stripe-java.git'',
         description = ''Official Stripe SDK. Low level library, not a module.'',
         stars = 5000, match_score = 0, analysis_reason = []\<rparr>]
   \<and> discover (index_status 403) strict_validate ''jeecg module for demo''
       = discover index_down strict_validate ''payment''
   \<and> discover (index_items []) strict_validate ''stripe checkout''
       = discover index_down strict_validate ''payment''
   \<and> search_github_real (index_items [pay_item]) strict_validate ''payment''
       = [\<lparr>name = ''pay-java'', url = ''https://github.com/example/pay-java.git'',
           description = ''No description provided'', stars = 7,
           match_score = 0, analysis_reason = []\<rparr>]
   \<and> discover (index_items [pay_item]) strict_validate ''payment''
       = search_github_real (index_items [pay_item]) strict_validate ''payment''"
proof -
  have a: "index_down (''payment'' @ '' language:java'') = Raised"
    by (simp add: index_down_def)
  have b: "index_status 403 (''jeecg module for demo'' @ '' language:java'') = Response 403 None"
    "(403::int) \<noteq> 200"
    by (simp_all add: index_status_def)
  have c: "index_items [] (''stripe checkout'' @ '' language:java'')
           = Response 200 (Some (JDict [(''total_count'', JInt 0), (''items'', JList [])]))"
    "map_of [(''total_count'', JInt 0), (''items'', JList [])] ''items'' = Some (JList [])"
    by (simp_all add: index_items_def)
  have d: "search_github_real (index_items [pay_item]) strict_validate ''payment''
       = [\<lparr>name = ''pay-java'', url = ''https://github.com/example/pay-java.git'',
           description = ''No description provided'', stars = 7,
           match_score = 0, analysis_reason = []\<rparr>]"
    by code_simp
  have e: "discover (index_items [pay_item]) strict_validate ''payment''
             \<noteq> [\<lparr>name = ''jeecg-boot-module-demo'',
         url = ''https://github.com/jeecgboot/jeecg-boot.git'',
         description = ''Official JeecgBoot demo module. Contains standard CRUD patterns.'',
         stars = 3500, match_score = 0, analysis_reason = []\<rparr>,
        \<lparr>name = ''jeepay-payment-system'',
         url = ''https://github.com/jeequan/jeepay.git'',
         description = ''Open source payment system. High complexity, standalone app.'',
         stars = 1200, match_score = 0, analysis_reason = []\<rparr>,
        \<lparr>name = ''stripe-java-sdk'',
         url = ''https://github.com/stripe/stripe-java.git'',
         description = ''Official Stripe SDK. Low level library, not a module.'',
         stars = 5000, match_score = 0, analysis_reason = []\<rparr>]"
    by code_simp
  note t1 = discover_falls_back_to_builtin [of "''payment''" index_down strict_validate, unfolded Let_def]
  note t2 = discover_falls_back_to_builtin [of "''jeecg module for demo''" "index_status 403" strict_validate,
                unfolded Let_def]
  note t3 = discover_falls_back_to_builtin [of "''stripe checkout''" "index_items []" strict_validate, unfolded Let_def]
  note t4 = discover_falls_back_to_builtin [of "''payment''" "index_items [pay_item]" strict_validate, unfolded Let_def]
  have r1: "discover index_down strict_validate ''payment''
     = [\<lparr>name = ''jeecg-boot-module-demo'',
         url = ''https://github.com/jeecgboot/jeecg-boot.git'',
         description = ''Official JeecgBoot demo module. Contains standard CRUD patterns.'',
         stars = 3500, match_score = 0, analysis_reason = []\<rparr>,
        \<lparr>name = ''jeepay-payment-system'',
         url = ''https://github.com/jeequan/jeepay.git'',
         description = ''Open source payment system. High complexity, standalone app.'',
         stars = 1200, match_score = 0, analysis_reason = []\<rparr>,
        \<lparr>name = ''stripe-java-sdk'',
         url = ''https://github.com/stripe/stripe-java.git'',
         description = ''Official Stripe SDK. Low level library, not a module.'',
         stars = 5000, match_score = 0, analysis_reason = []\<rparr>]"
    using t1 a by blast
  have r2: "discover (index_status 403) strict_validate ''jeecg module for demo''
              = discover index_down strict_validate ''payment''"
    unfolding r1 using t2 b by blast
  have r3: "discover (index_items []) strict_validate ''stripe checkout''
              = discover index_down strict_validate ''payment''"
    unfolding r1 using t3 c by blast
  have r4: "discover (index_items [pay_item]) strict_validate ''payment''
       = search_github_real (index_items [pay_item]) strict_validate ''payment''"
    using t4 e by blast
  from r1 r2 r3 d r4 show ?thesis by blast
qed

end
